theory Spec2Isabelle
  imports Main "HOL-Library.Sublist" "HOL-Library.AList" "HOL-Library.Word"
begin

section \<open>Secure Filesystem API: a shallow embedding of \<^verbatim>\<open>servers/filesystem/main.py\<close>\<close>

text \<open>
  The server exposes file operations below a configured list of allowed directories.
  Every handler is modelled as a function from the request fields and the state of the
  disk to a result (\<open>Inl\<close> an exception, \<open>Inr\<close> a response) and the new state of the disk.
  What the operating system and the Python libraries contribute is either modelled here
  (a directory tree with files, \<^verbatim>\<open>str\<close> methods, \<^verbatim>\<open>os.walk\<close>) or taken as a parameter
  (\<^verbatim>\<open>str.lower\<close>, \<^verbatim>\<open>Path.resolve\<close>, \<^verbatim>\<open>difflib.unified_diff\<close>, \<^verbatim>\<open>shutil.move\<close>, \<^verbatim>\<open>Path.stat\<close>, the
  clock and the random bytes of \<^verbatim>\<open>secrets\<close>). \<^verbatim>\<open>ALLOWED_DIRECTORIES\<close> comes from a module \<^verbatim>\<open>config\<close> that is
  not part of the sources, so it is a parameter as well.
\<close>

subsection \<open>Exceptions\<close>

text \<open>
  Python exceptions are values. \<open>HTTPException\<close> is FastAPI's exception: a status code and
  a detail. The detail constructors name the message templates of the source:
  \<^item> \<open>AccessDenied requested allowed\<close>: the dictionary with \<^verbatim>\<open>"error": "Access Denied"\<close>;
  \<^item> \<open>NotFound m\<close>, \<open>PermissionDenied m\<close>, \<open>InvalidArgument m\<close>: the message \<open>m\<close>;
  \<^item> \<open>EditNotFound p\<close>: \<^verbatim>\<open>"Edit failed: oldText not found in content: 'p...'"\<close>;
  \<^item> \<open>InvalidToken\<close>: \<^verbatim>\<open>"Invalid or expired confirmation token."\<close>;
  \<^item> \<open>TokenExpired\<close>: \<^verbatim>\<open>"Confirmation token has expired."\<close>;
  \<^item> \<open>ParameterMismatch\<close>: \<^verbatim>\<open>"Request parameters (path, recursive) do not match ..."\<close>;
  \<^item> \<open>DirectoryNotEmpty e\<close>: \<^verbatim>\<open>"Directory not empty. ... Original error: {e}"\<close>;
  \<^item> \<open>IOFailure m e\<close>: the message \<open>m\<close> followed by \<^verbatim>\<open>": {e}"\<close>, the text of the exception
    that was caught.
  \<open>HTTPException\<close> derives from \<^verbatim>\<open>Exception\<close>; \<open>FileNotFoundError\<close> and \<open>PermissionError\<close>
  derive from \<^verbatim>\<open>OSError\<close>. \<open>OSError m\<close> stands for every other operating system error.
\<close>

datatype py_exception =
    FileNotFoundError
  | PermissionError
  | OSError string
  | TypeError
  | ValueError
  | HTTPException nat detail
and detail =
    AccessDenied string "string list"
  | NotFound string
  | PermissionDenied string
  | EditNotFound string
  | InvalidToken
  | TokenExpired
  | ParameterMismatch
  | DirectoryNotEmpty py_exception
  | InvalidArgument string
  | IOFailure string py_exception

fun is_OSError :: "py_exception \<Rightarrow> bool" where
  "is_OSError FileNotFoundError = True"
| "is_OSError PermissionError = True"
| "is_OSError (OSError m) = True"
| "is_OSError e = False"

subsection \<open>Strings\<close>

text \<open>
  \<^verbatim>\<open>s.startswith(p)\<close> is \<^term>\<open>prefix p s\<close> and \<^verbatim>\<open>a in s\<close> on strings is \<^term>\<open>sublist a s\<close>, both
  from the library. \<^verbatim>\<open>str.lower\<close> folds every cased code point of Unicode, which a
  character-wise function on eight-bit \<open>char\<close> cannot do: the Path Guard, the handlers and
  the searches take it as their first parameter \<open>lower\<close>, so what is proved of them holds for
  \<^verbatim>\<open>str.lower\<close> whatever it does. \<open>ascii_lower\<close> is \<^verbatim>\<open>str.lower\<close> on ASCII text; it stands for
  \<open>lower\<close> in the examples, whose strings are all ASCII.
\<close>

definition ascii_lower_char :: "char \<Rightarrow> char" where
  "ascii_lower_char c =
     (case map_of (zip ''ABCDEFGHIJKLMNOPQRSTUVWXYZ'' ''abcdefghijklmnopqrstuvwxyz'') c of
        None \<Rightarrow> c
      | Some l \<Rightarrow> l)"

definition ascii_lower :: "string \<Rightarrow> string" where
  "ascii_lower s = map ascii_lower_char s"

definition startswith :: "string \<Rightarrow> string \<Rightarrow> bool" where
  "startswith s p = prefix p s"

text \<open>A text between single quotes, as in \<^verbatim>\<open>f"'{x}'"\<close>.\<close>

definition quoted :: "string \<Rightarrow> string" where
  "quoted s = CHR 0x27 # s @ [CHR 0x27]"

text \<open>
  \<^verbatim>\<open>text.replace(old, new, 1)\<close>: the leftmost occurrence of \<open>old\<close> is replaced, and the text
  is returned as it is when there is none. The empty \<open>old\<close> occurs at position 0.
\<close>

fun replace_1 :: "string \<Rightarrow> string \<Rightarrow> string \<Rightarrow> string" where
  "replace_1 old new [] = (if old = [] then new else [])"
| "replace_1 old new (c # cs) =
     (if prefix old (c # cs) then new @ drop (length old) (c # cs)
      else c # replace_1 old new cs)"

text \<open>
  \<^verbatim>\<open>str.splitlines(keepends=True)\<close> for the line boundaries that fit in a \<open>char\<close>:
  \<^verbatim>\<open>\n\<close>, \<^verbatim>\<open>\r\<close>, \<^verbatim>\<open>\r\n\<close>, \<^verbatim>\<open>\v\<close>, \<^verbatim>\<open>\f\<close>, \<^verbatim>\<open>\x1c\<close>, \<^verbatim>\<open>\x1d\<close>, \<^verbatim>\<open>\x1e\<close> and \<^verbatim>\<open>\x85\<close>.
\<close>

definition is_line_boundary :: "char \<Rightarrow> bool" where
  "is_line_boundary c \<longleftrightarrow>
     c \<in> set [CHR 0x0A, CHR 0x0D, CHR 0x0B, CHR 0x0C, CHR 0x1C, CHR 0x1D, CHR 0x1E, CHR 0x85]"

fun splitlines_from :: "string \<Rightarrow> string \<Rightarrow> string list" where
  "splitlines_from cur [] = (if cur = [] then [] else [cur])"
| "splitlines_from cur [c] =
     [cur @ [c]]"
| "splitlines_from cur (c # d # cs) =
     (if c = CHR 0x0D \<and> d = CHR 0x0A then (cur @ [c, d]) # splitlines_from [] cs
      else if is_line_boundary c then (cur @ [c]) # splitlines_from [] (d # cs)
      else splitlines_from (cur @ [c]) (d # cs))"

definition splitlines :: "string \<Rightarrow> string list" where
  "splitlines s = splitlines_from [] s"

text \<open>
  Reading a file in text mode with the default \<^verbatim>\<open>newline=None\<close>, as \<^verbatim>\<open>Path.read_text\<close> does:
  \<^verbatim>\<open>\r\n\<close> and a lone \<^verbatim>\<open>\r\<close> are read as \<^verbatim>\<open>\n\<close>.
\<close>

fun universal_newlines :: "string \<Rightarrow> string" where
  "universal_newlines [] = []"
| "universal_newlines [c] = (if c = CHR 0x0D then [CHR 0x0A] else [c])"
| "universal_newlines (c # d # cs) =
     (if c = CHR 0x0D \<and> d = CHR 0x0A then CHR 0x0A # universal_newlines cs
      else if c = CHR 0x0D then CHR 0x0A # universal_newlines (d # cs)
      else c # universal_newlines (d # cs))"

subsection \<open>Paths\<close>

text \<open>
  The components of a path string between its separators; \<^verbatim>\<open>os.path.join\<close> and
  \<^verbatim>\<open>Path(a) / b\<close> for a name \<open>b\<close> without separator.
\<close>

fun parts_from :: "string \<Rightarrow> string \<Rightarrow> string list" where
  "parts_from cur [] = (if cur = [] then [] else [cur])"
| "parts_from cur (c # cs) =
     (if c = CHR ''/'' then (if cur = [] then parts_from [] cs else cur # parts_from [] cs)
      else parts_from (cur @ [c]) cs)"

definition path_parts :: "string \<Rightarrow> string list" where
  "path_parts p = parts_from [] p"

definition path_join :: "string \<Rightarrow> string \<Rightarrow> string" where
  "path_join a b = (if a = [] \<or> last a = CHR ''/'' then a @ b else a @ ''/'' @ b)"

subsection \<open>The disk\<close>

text \<open>
  The disk is a tree of directories and text files below \<^verbatim>\<open>/\<close>, without symbolic links. A
  directory is the list of its entries in enumeration order; a file holds its text as it
  was written. The platform is POSIX: \<^verbatim>\<open>Path.write_text\<close> writes \<^verbatim>\<open>\n\<close> as it is, and
  \<^verbatim>\<open>Path.read_text\<close> reads with universal newlines. \<open>denied\<close> lists the resolved paths
  on which the operating system refuses an operation with \<^verbatim>\<open>PermissionError\<close>.
  \<^verbatim>\<open>CONFIRMATION_FILE\<close> is kept apart from the tree: \<open>confirmation_file\<close> is \<open>None\<close> when the
  file does not exist and otherwise holds the JSON object that \<^verbatim>\<open>save_confirmations\<close> wrote,
  as the list of its items; \<open>confirmation_file_denied\<close> says that opening or unlinking it fails.
  A stored confirmation is the dictionary with the keys \<^verbatim>\<open>"path"\<close>, \<^verbatim>\<open>"recursive"\<close> and
  \<^verbatim>\<open>"expiry"\<close>. A \<^verbatim>\<open>datetime\<close> is its number of microseconds since the epoch.
\<close>

datatype node = File string | Dir "(string \<times> node) list"

record confirmation =
  stored_path :: string
  stored_recursive :: bool
  expiry :: int

record disk =
  root :: node
  denied :: "string list"
  confirmation_file :: "(string \<times> confirmation) list option"
  confirmation_file_denied :: bool

fun lookup :: "node \<Rightarrow> string list \<Rightarrow> node option" where
  "lookup n [] = Some n"
| "lookup (File c) (x # xs) = None"
| "lookup (Dir es) (x # xs) = (case map_of es x of None \<Rightarrow> None | Some n \<Rightarrow> lookup n xs)"

text \<open>\<open>remove xs n\<close> takes the entry at \<open>xs\<close> (with all below it) out of the tree \<open>n\<close>.\<close>

fun remove :: "string list \<Rightarrow> node \<Rightarrow> node" where
  "remove [] n = n"
| "remove (x # xs) (File c) = File c"
| "remove [x] (Dir es) = Dir (AList.delete x es)"
| "remove (x # y # ys) (Dir es) =
     (case map_of es x of
        None \<Rightarrow> Dir es
      | Some n \<Rightarrow> Dir (AList.update x (remove (y # ys) n) es))"

text \<open>\<open>put xs new n\<close> sets the entry at \<open>xs\<close> to \<open>new\<close>, in a directory that exists.\<close>

fun put :: "string list \<Rightarrow> node \<Rightarrow> node \<Rightarrow> node" where
  "put [] new n = new"
| "put (x # xs) new (File c) = File c"
| "put [x] new (Dir es) = Dir (AList.update x new es)"
| "put (x # y # ys) new (Dir es) =
     (case map_of es x of
        None \<Rightarrow> Dir es
      | Some n \<Rightarrow> Dir (AList.update x (put (y # ys) new n) es))"

text \<open>\<^verbatim>\<open>Path.mkdir(parents=True, exist_ok=True)\<close> on the tree.\<close>

fun mkdirs :: "string list \<Rightarrow> node \<Rightarrow> py_exception + node" where
  "mkdirs [] (Dir es) = Inr (Dir es)"
| "mkdirs [] (File c) = Inl (OSError ''FileExistsError'')"
| "mkdirs (x # xs) (File c) = Inl (OSError ''NotADirectoryError'')"
| "mkdirs (x # xs) (Dir es) =
     (case mkdirs xs (case map_of es x of None \<Rightarrow> Dir [] | Some n \<Rightarrow> n) of
        Inl e \<Rightarrow> Inl e
      | Inr n' \<Rightarrow> Inr (Dir (AList.update x n' es)))"

definition os_lookup :: "disk \<Rightarrow> string \<Rightarrow> node option" where
  "os_lookup s p = lookup (root s) (path_parts p)"

definition path_exists :: "disk \<Rightarrow> string \<Rightarrow> bool" where
  "path_exists s p \<longleftrightarrow> os_lookup s p \<noteq> None"

definition is_file :: "disk \<Rightarrow> string \<Rightarrow> bool" where
  "is_file s p \<longleftrightarrow> (case os_lookup s p of Some (File c) \<Rightarrow> True | _ \<Rightarrow> False)"

definition is_dir :: "disk \<Rightarrow> string \<Rightarrow> bool" where
  "is_dir s p \<longleftrightarrow> (case os_lookup s p of Some (Dir es) \<Rightarrow> True | _ \<Rightarrow> False)"

definition read_text :: "disk \<Rightarrow> string \<Rightarrow> py_exception + string" where
  "read_text s p =
     (if p \<in> set (denied s) then Inl PermissionError
      else case os_lookup s p of
        None \<Rightarrow> Inl FileNotFoundError
      | Some (Dir es) \<Rightarrow> Inl (OSError ''IsADirectoryError'')
      | Some (File c) \<Rightarrow> Inr (universal_newlines c))"

definition write_text :: "disk \<Rightarrow> string \<Rightarrow> string \<Rightarrow> py_exception + disk" where
  "write_text s p content =
     (if p \<in> set (denied s) then Inl PermissionError
      else if path_parts p = [] then Inl (OSError ''IsADirectoryError'')
      else case lookup (root s) (butlast (path_parts p)) of
        None \<Rightarrow> Inl FileNotFoundError
      | Some (File c) \<Rightarrow> Inl (OSError ''NotADirectoryError'')
      | Some (Dir es) \<Rightarrow>
          (if is_dir s p then Inl (OSError ''IsADirectoryError'')
           else Inr (s\<lparr>root := put (path_parts p) (File content) (root s)\<rparr>)))"

definition mkdir_parents :: "disk \<Rightarrow> string \<Rightarrow> py_exception + disk" where
  "mkdir_parents s p =
     (if p \<in> set (denied s) then Inl PermissionError
      else case mkdirs (path_parts p) (root s) of
        Inl e \<Rightarrow> Inl e
      | Inr n \<Rightarrow> Inr (s\<lparr>root := n\<rparr>))"

definition unlink :: "disk \<Rightarrow> string \<Rightarrow> py_exception + disk" where
  "unlink s p =
     (if p \<in> set (denied s) then Inl PermissionError
      else case os_lookup s p of
        None \<Rightarrow> Inl FileNotFoundError
      | Some (Dir es) \<Rightarrow> Inl (OSError ''IsADirectoryError'')
      | Some (File c) \<Rightarrow> Inr (s\<lparr>root := remove (path_parts p) (root s)\<rparr>))"

definition rmdir :: "disk \<Rightarrow> string \<Rightarrow> py_exception + disk" where
  "rmdir s p =
     (if p \<in> set (denied s) then Inl PermissionError
      else case os_lookup s p of
        None \<Rightarrow> Inl FileNotFoundError
      | Some (File c) \<Rightarrow> Inl (OSError ''NotADirectoryError'')
      | Some (Dir es) \<Rightarrow>
          (if es \<noteq> [] then Inl (OSError ''Directory not empty'')
           else if path_parts p = [] then Inl (OSError ''Device or resource busy'')
           else Inr (s\<lparr>root := remove (path_parts p) (root s)\<rparr>)))"

definition rmtree :: "disk \<Rightarrow> string \<Rightarrow> py_exception + disk" where
  "rmtree s p =
     (if p \<in> set (denied s) then Inl PermissionError
      else case os_lookup s p of
        None \<Rightarrow> Inl FileNotFoundError
      | Some (File c) \<Rightarrow> Inl (OSError ''NotADirectoryError'')
      | Some (Dir es) \<Rightarrow>
          (if path_parts p = [] then Inl (OSError ''Device or resource busy'')
           else Inr (s\<lparr>root := remove (path_parts p) (root s)\<rparr>)))"

subsection \<open>Path Guard\<close>

text \<open>
  \<open>resolve\<close> stands for \<^verbatim>\<open>str(pathlib.Path(os.path.expanduser(p)).resolve())\<close>: the absolute path
  with the home shorthand expanded, \<^verbatim>\<open>..\<close> segments removed and symbolic links followed. A
  resolved path is represented by its string.
\<close>

definition normalize_path ::
    "(string \<Rightarrow> string) \<Rightarrow> (string \<Rightarrow> string) \<Rightarrow> string list \<Rightarrow> string \<Rightarrow> py_exception + string" where
  "normalize_path lower resolve ALLOWED_DIRECTORIES requested_path =
     (let requested = resolve requested_path in
      if list_ex (\<lambda>allowed. startswith (lower requested) (lower allowed)) ALLOWED_DIRECTORIES
      then Inr requested
      else Inl (HTTPException 403 (AccessDenied requested ALLOWED_DIRECTORIES)))"

subsection \<open>Text Editor\<close>

record EditOperation =
  oldText :: string
  newText :: string

text \<open>
  The loop of \<^verbatim>\<open>edit_file\<close> over \<^verbatim>\<open>data.edits\<close>, with \<open>modified\<close> as its accumulator. The
  exception it raises is still inside the \<^verbatim>\<open>try\<close> block of the handler.
\<close>

fun apply_edits :: "EditOperation list \<Rightarrow> string \<Rightarrow> py_exception + string" where
  "apply_edits [] modified = Inr modified"
| "apply_edits (edit # edits) modified =
     (if \<not> sublist (oldText edit) modified
      then Inl (HTTPException 400 (EditNotFound (take 50 (oldText edit))))
      else apply_edits edits (replace_1 (oldText edit) (newText edit) modified))"

subsection \<open>Confirmation Store\<close>

definition CONFIRMATION_TTL_SECONDS :: int where
  "CONFIRMATION_TTL_SECONDS = 60"

definition timedelta_seconds :: "int \<Rightarrow> int" where
  "timedelta_seconds n = n * 1000000"

text \<open>
  \<^verbatim>\<open>load_confirmations\<close> reads the clock itself (\<open>now\<close> here) and keeps the entries that expire
  later. An \<^verbatim>\<open>IOError\<close> on opening the file gives the empty dictionary. The file holds only
  what \<^verbatim>\<open>save_confirmations\<close> wrote, so every entry parses.
\<close>

definition load_confirmations :: "int \<Rightarrow> disk \<Rightarrow> (string \<times> confirmation) list" where
  "load_confirmations now s =
     (case confirmation_file s of
        None \<Rightarrow> []
      | Some data \<Rightarrow>
          if confirmation_file_denied s then []
          else filter (\<lambda>(token, details). expiry details > now) data)"

definition save_confirmations :: "(string \<times> confirmation) list \<Rightarrow> disk \<Rightarrow> disk" where
  "save_confirmations confirmations s =
     (if confirmation_file_denied s then s else s\<lparr>confirmation_file := Some confirmations\<rparr>)"

text \<open>The module-level clean-up that runs when the process starts.\<close>

definition startup :: "disk \<Rightarrow> disk" where
  "startup s =
     (case confirmation_file s of
        None \<Rightarrow> s
      | Some data \<Rightarrow> if confirmation_file_denied s then s else s\<lparr>confirmation_file := None\<rparr>)"

text \<open>\<^verbatim>\<open>secrets.token_hex(n)\<close> is the hexadecimal text of \<open>n\<close> random bytes, given here.\<close>

definition hex_digit :: "nat \<Rightarrow> char" where
  "hex_digit n = ''0123456789abcdef'' ! n"

definition hex_byte :: "8 word \<Rightarrow> string" where
  "hex_byte b = [hex_digit (unat b div 16), hex_digit (unat b mod 16)]"

definition token_hex :: "8 word list \<Rightarrow> string" where
  "token_hex random_bytes = concat (map hex_byte random_bytes)"

subsection \<open>Responses\<close>

datatype tree_entry = FileEntry string | DirectoryEntry string "tree_entry list"

record content_match =
  file_path :: string
  line_number :: nat
  line_content :: string

record stat_result =
  st_size :: nat
  st_mtime :: int
  st_ctime :: int
  st_birthtime :: "int option"

text \<open>
  \<open>ConfirmationRequiredResponse message confirmation_token expires_at\<close>;
  \<open>Metadata path type size_bytes modification_time creation_time last_metadata_change_time\<close>;
  \<open>DirectoryListing\<close> holds the pairs of name and type.
\<close>

datatype response =
    SuccessResponse string
  | ReadFileResponse string
  | DiffResponse string
  | ConfirmationRequiredResponse string string int
  | DirectoryListing "(string \<times> string) list"
  | DirectoryTree "tree_entry list"
  | Matches "string list"
  | ContentMatches "content_match list"
  | Metadata string string nat int int int

type_synonym outcome = "(py_exception + response) \<times> disk"

subsection \<open>Handlers: read, write, edit, create directory\<close>

text \<open>
  Each handler takes \<open>resolve\<close> and \<^verbatim>\<open>ALLOWED_DIRECTORIES\<close>, then the fields of its request
  (\<^verbatim>\<open>data.path\<close> is \<open>data_path\<close>), then the disk. The \<^verbatim>\<open>except\<close> clauses of a handler are a
  function on the exception that reached them.
\<close>

fun read_file_except :: "string \<Rightarrow> py_exception \<Rightarrow> py_exception" where
  "read_file_except data_path FileNotFoundError =
     HTTPException 404 (NotFound (''File not found: '' @ data_path))"
| "read_file_except data_path PermissionError =
     HTTPException 403 (PermissionDenied (''Permission denied for file: '' @ data_path))"
| "read_file_except data_path e =
     HTTPException 500 (IOFailure (''Failed to read file '' @ data_path) e)"

definition read_file :: "(string \<Rightarrow> string) \<Rightarrow> (string \<Rightarrow> string) \<Rightarrow> string list \<Rightarrow> string \<Rightarrow> disk \<Rightarrow> outcome" where
  "read_file lower resolve ALLOWED_DIRECTORIES data_path s =
     (case normalize_path lower resolve ALLOWED_DIRECTORIES data_path of
        Inl e \<Rightarrow> (Inl e, s)
      | Inr path \<Rightarrow>
          (case read_text s path of
             Inl e \<Rightarrow> (Inl (read_file_except data_path e), s)
           | Inr file_content \<Rightarrow> (Inr (ReadFileResponse file_content), s)))"

fun write_file_except :: "string \<Rightarrow> py_exception \<Rightarrow> py_exception" where
  "write_file_except data_path PermissionError =
     HTTPException 403 (PermissionDenied (''Permission denied to write to '' @ data_path))"
| "write_file_except data_path e =
     HTTPException 500 (IOFailure (''Failed to write to '' @ data_path) e)"

definition write_file ::
    "(string \<Rightarrow> string) \<Rightarrow> (string \<Rightarrow> string) \<Rightarrow> string list \<Rightarrow> string \<Rightarrow> string \<Rightarrow> disk \<Rightarrow> outcome" where
  "write_file lower resolve ALLOWED_DIRECTORIES data_path data_content s =
     (case normalize_path lower resolve ALLOWED_DIRECTORIES data_path of
        Inl e \<Rightarrow> (Inl e, s)
      | Inr path \<Rightarrow>
          (case write_text s path data_content of
             Inl e \<Rightarrow> (Inl (write_file_except data_path e), s)
           | Inr s' \<Rightarrow> (Inr (SuccessResponse (''Successfully wrote to '' @ data_path)), s')))"

text \<open>
  \<^verbatim>\<open>edit_file\<close> has two \<^verbatim>\<open>try\<close> blocks: one around reading the file, one around the edit
  loop, the dry run and the write. \<open>unified_diff a b fromfile tofile\<close> stands for
  \<^verbatim>\<open>difflib.unified_diff\<close>.
\<close>

fun edit_file_read_except :: "string \<Rightarrow> py_exception \<Rightarrow> py_exception" where
  "edit_file_read_except data_path FileNotFoundError =
     HTTPException 404 (NotFound (''File not found: '' @ data_path))"
| "edit_file_read_except data_path PermissionError =
     HTTPException 403 (PermissionDenied (''Permission denied to read file: '' @ data_path))"
| "edit_file_read_except data_path e =
     HTTPException 500 (IOFailure (''Failed to read file '' @ data_path @ '' for editing'') e)"

fun edit_file_except :: "string \<Rightarrow> py_exception \<Rightarrow> py_exception" where
  "edit_file_except data_path PermissionError =
     HTTPException 403 (PermissionDenied (''Permission denied to write edited file: '' @ data_path))"
| "edit_file_except data_path e =
     HTTPException 500 (IOFailure (''Failed to write edited file '' @ data_path) e)"

definition edit_file ::
    "(string \<Rightarrow> string) \<Rightarrow> (string \<Rightarrow> string) \<Rightarrow> string list \<Rightarrow>
     (string list \<Rightarrow> string list \<Rightarrow> string \<Rightarrow> string \<Rightarrow> string list) \<Rightarrow>
     string \<Rightarrow> EditOperation list \<Rightarrow> bool \<Rightarrow> disk \<Rightarrow> outcome" where
  "edit_file lower resolve ALLOWED_DIRECTORIES unified_diff data_path data_edits data_dryRun s =
     (case normalize_path lower resolve ALLOWED_DIRECTORIES data_path of
        Inl e \<Rightarrow> (Inl e, s)
      | Inr path \<Rightarrow>
          (case read_text s path of
             Inl e \<Rightarrow> (Inl (edit_file_read_except data_path e), s)
           | Inr original \<Rightarrow>
               (case apply_edits data_edits original of
                  Inl e \<Rightarrow> (Inl (edit_file_except data_path e), s)
                | Inr modified \<Rightarrow>
                    if data_dryRun then
                      (Inr (DiffResponse (concat (unified_diff (splitlines original)
                         (splitlines modified) (''a/'' @ data_path) (''b/'' @ data_path)))), s)
                    else
                      (case write_text s path modified of
                         Inl e \<Rightarrow> (Inl (edit_file_except data_path e), s)
                       | Inr s' \<Rightarrow>
                           (Inr (SuccessResponse (''Successfully edited file '' @ data_path)),
                            s')))))"

fun create_directory_except :: "string \<Rightarrow> py_exception \<Rightarrow> py_exception" where
  "create_directory_except data_path PermissionError =
     HTTPException 403 (PermissionDenied (''Permission denied to create directory '' @ data_path))"
| "create_directory_except data_path e =
     HTTPException 500 (IOFailure (''Failed to create directory '' @ data_path) e)"

definition create_directory ::
    "(string \<Rightarrow> string) \<Rightarrow> (string \<Rightarrow> string) \<Rightarrow> string list \<Rightarrow> string \<Rightarrow> disk \<Rightarrow> outcome" where
  "create_directory lower resolve ALLOWED_DIRECTORIES data_path s =
     (case normalize_path lower resolve ALLOWED_DIRECTORIES data_path of
        Inl e \<Rightarrow> (Inl e, s)
      | Inr dir_path \<Rightarrow>
          (case mkdir_parents s dir_path of
             Inl e \<Rightarrow> (Inl (create_directory_except data_path e), s)
           | Inr s' \<Rightarrow>
               (Inr (SuccessResponse (''Successfully created directory '' @ data_path)), s')))"

subsection \<open>Directory Walker\<close>

definition entry_type :: "node \<Rightarrow> string" where
  "entry_type n = (case n of Dir es \<Rightarrow> ''directory'' | File c \<Rightarrow> ''file'')"

text \<open>
  \<^verbatim>\<open>iterdir\<close> is not inside a \<^verbatim>\<open>try\<close> in \<^verbatim>\<open>list_directory\<close> and \<^verbatim>\<open>directory_tree\<close>: what it
  raises leaves the handler as it is.
\<close>

definition list_directory ::
    "(string \<Rightarrow> string) \<Rightarrow> (string \<Rightarrow> string) \<Rightarrow> string list \<Rightarrow> string \<Rightarrow> disk \<Rightarrow> outcome" where
  "list_directory lower resolve ALLOWED_DIRECTORIES data_path s =
     (case normalize_path lower resolve ALLOWED_DIRECTORIES data_path of
        Inl e \<Rightarrow> (Inl e, s)
      | Inr dir_path \<Rightarrow>
          (case os_lookup s dir_path of
             Some (Dir es) \<Rightarrow>
               if dir_path \<in> set (denied s) then (Inl PermissionError, s)
               else (Inr (DirectoryListing (map (\<lambda>(name, n). (name, entry_type n)) es)), s)
           | _ \<Rightarrow>
               (Inl (HTTPException 400 (InvalidArgument ''Provided path is not a directory'')),
                s)))"

fun build_tree :: "node \<Rightarrow> tree_entry list"
  and build_entries :: "(string \<times> node) list \<Rightarrow> tree_entry list" where
  "build_tree (File c) = []"
| "build_tree (Dir es) = build_entries es"
| "build_entries [] = []"
| "build_entries ((name, File c) # es) = FileEntry name # build_entries es"
| "build_entries ((name, Dir sub) # es) =
     DirectoryEntry name (build_tree (Dir sub)) # build_entries es"

definition directory_tree ::
    "(string \<Rightarrow> string) \<Rightarrow> (string \<Rightarrow> string) \<Rightarrow> string list \<Rightarrow> string \<Rightarrow> disk \<Rightarrow> outcome" where
  "directory_tree lower resolve ALLOWED_DIRECTORIES data_path s =
     (case normalize_path lower resolve ALLOWED_DIRECTORIES data_path of
        Inl e \<Rightarrow> (Inl e, s)
      | Inr base_path \<Rightarrow>
          (case os_lookup s base_path of
             None \<Rightarrow> (Inl FileNotFoundError, s)
           | Some (File c) \<Rightarrow> (Inl (OSError ''NotADirectoryError''), s)
           | Some (Dir es) \<Rightarrow>
               if base_path \<in> set (denied s) then (Inl PermissionError, s)
               else (Inr (DirectoryTree (build_tree (Dir es))), s)))"

text \<open>
  \<^verbatim>\<open>os.walk\<close>, top down: for a directory its own triple of path, directory names and file
  names, then the walks of its subdirectories in order. Nothing is yielded for a file.
\<close>

definition dir_names :: "(string \<times> node) list \<Rightarrow> string list" where
  "dir_names es = map fst (filter (\<lambda>(name, n). case n of Dir sub \<Rightarrow> True | File c \<Rightarrow> False) es)"

definition file_names :: "(string \<times> node) list \<Rightarrow> string list" where
  "file_names es = map fst (filter (\<lambda>(name, n). case n of Dir sub \<Rightarrow> False | File c \<Rightarrow> True) es)"

fun os_walk :: "string \<Rightarrow> node \<Rightarrow> (string \<times> string list \<times> string list) list"
  and walk_entries ::
    "string \<Rightarrow> (string \<times> node) list \<Rightarrow> (string \<times> string list \<times> string list) list" where
  "os_walk dirpath (File c) = []"
| "os_walk dirpath (Dir es) = (dirpath, dir_names es, file_names es) # walk_entries dirpath es"
| "walk_entries dirpath [] = []"
| "walk_entries dirpath ((name, n) # es) =
     os_walk (path_join dirpath name) n @ walk_entries dirpath es"

text \<open>
  \<^verbatim>\<open>fnmatch.fnmatchcase name pat\<close>, following \<^verbatim>\<open>fnmatch.translate\<close> of CPython 3.11: \<^verbatim>\<open>*\<close>
  matches any text, \<^verbatim>\<open>?\<close> any character, and \<^verbatim>\<open>[seq]\<close> or \<^verbatim>\<open>[!seq]\<close> a character in or not in
  \<open>seq\<close>. \<open>bracket_end\<close> finds the closing bracket (a \<^verbatim>\<open>]\<close> right after the opening bracket
  or its \<^verbatim>\<open>!\<close> is a member); without one the \<^verbatim>\<open>[\<close> is literal. \<open>class_chunks\<close> splits \<open>seq\<close>
  at the hyphens that make ranges, as the library does: a range runs from the last character
  of a chunk to the first of the next, a range whose ends are in the wrong order is dropped,
  every other character stands for itself.
\<close>

definition bracket_end :: "string \<Rightarrow> nat option" where
  "bracket_end rest =
     (let j0 = (if prefix ''!'' rest then 1 else 0);
          j1 = (if prefix '']'' (drop j0 rest) then j0 + 1 else j0)
      in if CHR '']'' \<in> set (drop j1 rest)
         then Some (j1 + length (takeWhile (\<lambda>c. c \<noteq> CHR '']'') (drop j1 rest)))
         else None)"

fun chunks_from :: "nat \<Rightarrow> string \<Rightarrow> string \<Rightarrow> string list" where
  "chunks_from skip cur [] = [cur]"
| "chunks_from skip cur (c # cs) =
     (if skip = 0 \<and> c = CHR ''-'' then cur # chunks_from 2 [] cs
      else chunks_from (skip - 1) (cur @ [c]) cs)"

definition close_last :: "string list \<Rightarrow> string list" where
  "close_last chunks =
     (if 2 \<le> length chunks \<and> last chunks = []
      then butlast (butlast chunks) @ [last (butlast chunks) @ ''-'']
      else chunks)"

fun drop_empty_ranges :: "string list \<Rightarrow> string list" where
  "drop_empty_ranges [] = []"
| "drop_empty_ranges [a] = [a]"
| "drop_empty_ranges (a # b # rest) =
     (case drop_empty_ranges (b # rest) of
        [] \<Rightarrow> [a]
      | b' # rest' \<Rightarrow>
          if a \<noteq> [] \<and> b' \<noteq> [] \<and> (of_char (last a) :: nat) > of_char (hd b')
          then (butlast a @ tl b') # rest'
          else a # b' # rest')"

definition class_chunks :: "string \<Rightarrow> string list" where
  "class_chunks stuff =
     (if CHR ''-'' \<in> set stuff
      then drop_empty_ranges (close_last
             (chunks_from (if prefix ''!'' stuff then 2 else 1) [] stuff))
      else [stuff])"

fun in_ranges :: "char \<Rightarrow> string list \<Rightarrow> bool" where
  "in_ranges c (a # b # rest) =
     ((a \<noteq> [] \<and> b \<noteq> [] \<and> (of_char (last a) :: nat) \<le> of_char c \<and> (of_char c :: nat) \<le> of_char (hd b))
      \<or> in_ranges c (b # rest))"
| "in_ranges c chunks = False"

definition class_match :: "string \<Rightarrow> char \<Rightarrow> bool" where
  "class_match stuff c =
     (let chunks = class_chunks stuff;
          negated = prefix ''!'' (concat chunks);
          members = (if negated then tl (hd chunks) # tl chunks else chunks)
      in (c \<in> set (concat members) \<or> in_ranges c members) \<noteq> negated)"

function fnmatchcase :: "string \<Rightarrow> string \<Rightarrow> bool" where
  "fnmatchcase [] [] = True"
| "fnmatchcase (c # cs) [] = False"
| "fnmatchcase name (p # ps) =
     (if p = CHR ''*'' then
        fnmatchcase name ps \<or> (case name of [] \<Rightarrow> False | c # cs \<Rightarrow> fnmatchcase cs (p # ps))
      else case name of
        [] \<Rightarrow> False
      | c # cs \<Rightarrow>
          if p = CHR ''?'' then fnmatchcase cs ps
          else if p = CHR ''['' then
            (case bracket_end ps of
               None \<Rightarrow> c = CHR ''['' \<and> fnmatchcase cs ps
             | Some j \<Rightarrow> class_match (take j ps) c \<and> fnmatchcase cs (drop (Suc j) ps))
          else p = c \<and> fnmatchcase cs ps)"
  by pat_completeness auto
termination
  by (relation "measure (\<lambda>(name, pat). length name + length pat)") auto

text \<open>
  \<^verbatim>\<open>PurePath.match\<close> as in CPython 3.11: a relative pattern is matched against the last
  components of the path, an absolute one against all of them, and the empty pattern raises
  \<^verbatim>\<open>ValueError\<close>. \<open>pure_parts\<close> is \<^verbatim>\<open>PurePath.parts\<close>: the root is a component of its own,
  \<^verbatim>\<open>.\<close> is dropped.
\<close>

definition is_absolute :: "string \<Rightarrow> bool" where
  "is_absolute p \<longleftrightarrow> prefix ''/'' p"

definition pure_parts :: "string \<Rightarrow> string list" where
  "pure_parts p =
     (if is_absolute p then [''/''] else []) @ filter (\<lambda>x. x \<noteq> ''.'') (path_parts p)"

definition match_reversed :: "string list \<Rightarrow> string list \<Rightarrow> bool" where
  "match_reversed parts pat_parts =
     list_all (\<lambda>(part, pat). fnmatchcase part pat) (zip (rev parts) (rev pat_parts))"

definition path_match :: "string \<Rightarrow> string \<Rightarrow> py_exception + bool" where
  "path_match p path_pattern =
     (let pat_parts = pure_parts path_pattern; parts = pure_parts p in
      if pat_parts = [] then Inl ValueError
      else if is_absolute path_pattern \<and> \<not> is_absolute p then Inr False
      else if is_absolute path_pattern then
        (if length pat_parts \<noteq> length parts then Inr False
         else Inr (match_reversed parts (tl pat_parts)))
      else if length pat_parts > length parts then Inr False
      else Inr (match_reversed parts pat_parts))"

text \<open>The loop over \<^verbatim>\<open>data.excludePatterns\<close> that sets \<^verbatim>\<open>excluded\<close>.\<close>

fun excluded_by :: "string \<Rightarrow> string list \<Rightarrow> py_exception + bool" where
  "excluded_by root_dir [] = Inr False"
| "excluded_by root_dir (pat # pats) =
     (case path_match root_dir pat of
        Inl e \<Rightarrow> Inl e
      | Inr matched \<Rightarrow> if matched then Inr True else excluded_by root_dir pats)"

text \<open>The inner loop over \<^verbatim>\<open>files + dirs\<close>: the results of one level.\<close>

definition level_matches ::
    "(string \<Rightarrow> string) \<Rightarrow> string list \<Rightarrow> string \<Rightarrow> string \<Rightarrow> string list \<Rightarrow> string list \<Rightarrow> string list" where
  "level_matches lower ALLOWED_DIRECTORIES data_pattern root_dir dirs files =
     map (path_join root_dir)
       (filter (\<lambda>item. sublist (lower data_pattern) (lower item) \<and>
                  list_ex (\<lambda>alt. startswith (path_join root_dir item) alt) ALLOWED_DIRECTORIES)
          (files @ dirs))"

text \<open>
  The loop of \<^verbatim>\<open>search_files\<close> over the triples of \<^verbatim>\<open>os.walk\<close>. \<^verbatim>\<open>continue\<close> goes on with
  the next triple. \<^verbatim>\<open>excludePatterns\<close> is optional: iterating over \<^verbatim>\<open>None\<close> raises
  \<^verbatim>\<open>TypeError\<close>. No exception is caught here.
\<close>

fun search_walk ::
    "(string \<Rightarrow> string) \<Rightarrow> string list \<Rightarrow> string \<Rightarrow> string list option \<Rightarrow>
     (string \<times> string list \<times> string list) list \<Rightarrow> py_exception + string list" where
  "search_walk lower ALLOWED_DIRECTORIES data_pattern data_excludePatterns [] = Inr []"
| "search_walk lower ALLOWED_DIRECTORIES data_pattern data_excludePatterns
     ((root_dir, dirs, files) # triples) =
     (case data_excludePatterns of
        None \<Rightarrow> Inl TypeError
      | Some pats \<Rightarrow>
          (case excluded_by root_dir pats of
             Inl e \<Rightarrow> Inl e
           | Inr excluded \<Rightarrow>
               (case search_walk lower ALLOWED_DIRECTORIES data_pattern data_excludePatterns triples of
                  Inl e \<Rightarrow> Inl e
                | Inr results \<Rightarrow>
                    if excluded then Inr results
                    else Inr (level_matches lower ALLOWED_DIRECTORIES data_pattern root_dir dirs files
                              @ results))))"

definition search_files ::
    "(string \<Rightarrow> string) \<Rightarrow> (string \<Rightarrow> string) \<Rightarrow> string list \<Rightarrow> string \<Rightarrow> string \<Rightarrow> string list option \<Rightarrow>
     disk \<Rightarrow> outcome" where
  "search_files lower resolve ALLOWED_DIRECTORIES data_path data_pattern data_excludePatterns s =
     (case normalize_path lower resolve ALLOWED_DIRECTORIES data_path of
        Inl e \<Rightarrow> (Inl e, s)
      | Inr base_path \<Rightarrow>
          (case search_walk lower ALLOWED_DIRECTORIES data_pattern data_excludePatterns
                  (case os_lookup s base_path of
                     None \<Rightarrow> []
                   | Some n \<Rightarrow> os_walk base_path n) of
             Inl e \<Rightarrow> (Inl e, s)
           | Inr results \<Rightarrow>
               (Inr (Matches (if results = [] then [''No matches found''] else results)), s)))"

subsection \<open>Delete: the two-step confirmation\<close>

fun delete_path_except :: "string \<Rightarrow> py_exception \<Rightarrow> py_exception" where
  "delete_path_except data_path PermissionError =
     HTTPException 403 (PermissionDenied (''Permission denied to delete '' @ data_path))"
| "delete_path_except data_path e =
     HTTPException 500 (IOFailure (''Failed to delete '' @ data_path) e)"

text \<open>
  The body of the \<^verbatim>\<open>try\<close> block of step 2, with the exception that leaves it. The inner
  \<^verbatim>\<open>except OSError\<close> around \<^verbatim>\<open>rmdir\<close> raises its \<open>HTTPException\<close> inside the outer \<^verbatim>\<open>try\<close>.
\<close>

definition delete_try :: "string \<Rightarrow> string \<Rightarrow> bool \<Rightarrow> disk \<Rightarrow> outcome" where
  "delete_try path data_path data_recursive s =
     (if \<not> path_exists s path then
        (Inl (HTTPException 404 (NotFound (''Path not found: '' @ data_path))), s)
      else if is_file s path then
        (case unlink s path of
           Inl e \<Rightarrow> (Inl e, s)
         | Inr s' \<Rightarrow> (Inr (SuccessResponse (''Successfully deleted file: '' @ data_path)), s'))
      else if is_dir s path then
        (if data_recursive then
           (case rmtree s path of
              Inl e \<Rightarrow> (Inl e, s)
            | Inr s' \<Rightarrow>
                (Inr (SuccessResponse
                   (''Successfully deleted directory recursively: '' @ data_path)), s'))
         else
           (case rmdir s path of
              Inl e \<Rightarrow>
                (Inl (if is_OSError e then HTTPException 400 (DirectoryNotEmpty e) else e), s)
            | Inr s' \<Rightarrow>
                (Inr (SuccessResponse
                   (''Successfully deleted empty directory: '' @ data_path)), s')))
      else
        (Inl (HTTPException 400
           (InvalidArgument (''Path is not a file or directory: '' @ data_path))), s))"

text \<open>Step 2, the confirmation request: \<open>token\<close> is the token of the request.\<close>

definition delete_confirm ::
    "int \<Rightarrow> (string \<times> confirmation) list \<Rightarrow> string \<Rightarrow> string \<Rightarrow> bool \<Rightarrow> string \<Rightarrow>
     disk \<Rightarrow> outcome" where
  "delete_confirm now pending_confirmations path data_path data_recursive token s =
     (case map_of pending_confirmations token of
        None \<Rightarrow> (Inl (HTTPException 400 InvalidToken), s)
      | Some confirmation_data \<Rightarrow>
          if now > expiry confirmation_data then
            (Inl (HTTPException 400 TokenExpired),
             save_confirmations (AList.delete token pending_confirmations) s)
          else if stored_path confirmation_data \<noteq> data_path
                  \<or> stored_recursive confirmation_data \<noteq> data_recursive then
            (Inl (HTTPException 400 ParameterMismatch), s)
          else
            (case delete_try path data_path data_recursive
                    (save_confirmations (AList.delete token pending_confirmations) s) of
               (Inl e, s') \<Rightarrow> (Inl (delete_path_except data_path e), s')
             | (Inr r, s') \<Rightarrow> (Inr r, s')))"

text \<open>
  Step 1, the initial request: \<open>random_bytes\<close> are the three bytes behind
  \<^verbatim>\<open>secrets.token_hex(3)\<close>.
\<close>

definition delete_request ::
    "int \<Rightarrow> 8 word list \<Rightarrow> (string \<times> confirmation) list \<Rightarrow> string \<Rightarrow> string \<Rightarrow> bool \<Rightarrow>
     disk \<Rightarrow> outcome" where
  "delete_request now random_bytes pending_confirmations path data_path data_recursive s =
     (if \<not> path_exists s path then
        (Inl (HTTPException 404 (NotFound (''Path not found: '' @ data_path))), s)
      else
        (let token = take 5 (token_hex random_bytes);
             expiry_time = now + timedelta_seconds CONFIRMATION_TTL_SECONDS
         in (Inr (ConfirmationRequiredResponse
                    (''`Confirm deletion of file: '' @ data_path @ '' with token '' @ token @ ''`'')
                    token expiry_time),
             save_confirmations
               (AList.update token
                  \<lparr>stored_path = data_path, stored_recursive = data_recursive,
                   expiry = expiry_time\<rparr> pending_confirmations) s)))"

text \<open>
  \<^verbatim>\<open>delete_path\<close>. \<open>now_load\<close> is the clock as \<^verbatim>\<open>load_confirmations\<close> reads it, \<open>now\<close> the
  clock as the handler reads it after the path check. The test \<^verbatim>\<open>if data.confirmation_token\<close>
  fails for \<^verbatim>\<open>None\<close> and for the empty string.
\<close>

definition delete_path ::
    "(string \<Rightarrow> string) \<Rightarrow> (string \<Rightarrow> string) \<Rightarrow> string list \<Rightarrow> int \<Rightarrow> int \<Rightarrow> 8 word list \<Rightarrow>
     string \<Rightarrow> bool \<Rightarrow> string option \<Rightarrow> disk \<Rightarrow> outcome" where
  "delete_path lower resolve ALLOWED_DIRECTORIES now_load now random_bytes
     data_path data_recursive data_confirmation_token s =
     (let pending_confirmations = load_confirmations now_load s in
      case normalize_path lower resolve ALLOWED_DIRECTORIES data_path of
        Inl e \<Rightarrow> (Inl e, s)
      | Inr path \<Rightarrow>
          (case data_confirmation_token of
             None \<Rightarrow>
               delete_request now random_bytes pending_confirmations path data_path
                 data_recursive s
           | Some token \<Rightarrow>
               if token = [] then
                 delete_request now random_bytes pending_confirmations path data_path
                   data_recursive s
               else
                 delete_confirm now pending_confirmations path data_path data_recursive
                   token s))"

subsection \<open>Move and metadata\<close>

text \<open>
  \<open>shutil_move tree source destination\<close> stands for \<^verbatim>\<open>shutil.move\<close>: the exception it
  raised, if any, and the tree it left.
\<close>

fun move_path_except :: "string \<Rightarrow> string \<Rightarrow> py_exception \<Rightarrow> py_exception" where
  "move_path_except source_path destination_path PermissionError =
     HTTPException 403 (PermissionDenied (''Permission denied for move operation involving ''
       @ quoted source_path @ '' or '' @ quoted destination_path))"
| "move_path_except source_path destination_path e =
     HTTPException 500
       (IOFailure (''Failed to move '' @ quoted source_path @ '' to '' @ quoted destination_path)
          e)"

definition move_path ::
    "(string \<Rightarrow> string) \<Rightarrow> (string \<Rightarrow> string) \<Rightarrow> string list \<Rightarrow>
     (node \<Rightarrow> string \<Rightarrow> string \<Rightarrow> py_exception option \<times> node) \<Rightarrow>
     string \<Rightarrow> string \<Rightarrow> disk \<Rightarrow> outcome" where
  "move_path lower resolve ALLOWED_DIRECTORIES shutil_move data_source_path data_destination_path s =
     (case normalize_path lower resolve ALLOWED_DIRECTORIES data_source_path of
        Inl e \<Rightarrow> (Inl e, s)
      | Inr source \<Rightarrow>
          (case normalize_path lower resolve ALLOWED_DIRECTORIES data_destination_path of
             Inl e \<Rightarrow> (Inl e, s)
           | Inr destination \<Rightarrow>
               if \<not> path_exists s source then
                 (Inl (move_path_except data_source_path data_destination_path
                    (HTTPException 404
                       (NotFound (''Source path not found: '' @ data_source_path)))), s)
               else
                 (case shutil_move (root s) source destination of
                    (Some e, n) \<Rightarrow>
                      (Inl (move_path_except data_source_path data_destination_path e),
                       s\<lparr>root := n\<rparr>)
                  | (None, n) \<Rightarrow>
                      (Inr (SuccessResponse (''Successfully moved '' @ quoted data_source_path
                         @ '' to '' @ quoted data_destination_path)), s\<lparr>root := n\<rparr>))))"

text \<open>\<open>os_stat\<close> stands for \<^verbatim>\<open>Path.stat\<close> on a path that exists.\<close>

fun get_metadata_except :: "string \<Rightarrow> py_exception \<Rightarrow> py_exception" where
  "get_metadata_except data_path PermissionError =
     HTTPException 403
       (PermissionDenied (''Permission denied to access metadata for '' @ data_path))"
| "get_metadata_except data_path e =
     HTTPException 500 (IOFailure (''Failed to get metadata for '' @ data_path) e)"

definition get_metadata ::
    "(string \<Rightarrow> string) \<Rightarrow> (string \<Rightarrow> string) \<Rightarrow> string list \<Rightarrow> (string \<Rightarrow> stat_result) \<Rightarrow> string \<Rightarrow> disk \<Rightarrow>
     outcome" where
  "get_metadata lower resolve ALLOWED_DIRECTORIES os_stat data_path s =
     (case normalize_path lower resolve ALLOWED_DIRECTORIES data_path of
        Inl e \<Rightarrow> (Inl e, s)
      | Inr path \<Rightarrow>
          if \<not> path_exists s path then
            (Inl (get_metadata_except data_path
               (HTTPException 404 (NotFound (''Path not found: '' @ data_path)))), s)
          else if path \<in> set (denied s) then
            (Inl (get_metadata_except data_path PermissionError), s)
          else
            (let stat = os_stat path;
                 file_type = (if is_file s path then ''file''
                              else if is_dir s path then ''directory'' else ''other'');
                 create_time = (case st_birthtime stat of
                                  Some t \<Rightarrow> t
                                | None \<Rightarrow> st_ctime stat)
             in (Inr (Metadata path file_type (st_size stat) (st_mtime stat) create_time
                        (st_ctime stat)), s)))"

subsection \<open>Content search\<close>

text \<open>
  The lines of a file opened in text mode (\<^verbatim>\<open>\n\<close>, \<^verbatim>\<open>\r\<close> and \<^verbatim>\<open>\r\n\<close> end a line and are
  read as \<^verbatim>\<open>\n\<close>), \<^verbatim>\<open>str.strip\<close>, and \<^verbatim>\<open>Path.glob\<close> and \<^verbatim>\<open>Path.rglob\<close> for a pattern that
  is one name pattern (no separator, no \<^verbatim>\<open>**\<close>). \<^verbatim>\<open>rglob\<close> yields the matches of a directory,
  then those of its subdirectories in order.
\<close>

fun lines_from :: "string \<Rightarrow> string \<Rightarrow> string list" where
  "lines_from cur [] = (if cur = [] then [] else [cur])"
| "lines_from cur [c] =
     (if c = CHR 0x0D \<or> c = CHR 0x0A then [cur @ [CHR 0x0A]] else [cur @ [c]])"
| "lines_from cur (c # d # cs) =
     (if c = CHR 0x0D \<and> d = CHR 0x0A then (cur @ [CHR 0x0A]) # lines_from [] cs
      else if c = CHR 0x0D \<or> c = CHR 0x0A then (cur @ [CHR 0x0A]) # lines_from [] (d # cs)
      else lines_from (cur @ [c]) (d # cs))"

definition is_space :: "char \<Rightarrow> bool" where
  "is_space c \<longleftrightarrow>
     c \<in> set [CHR 0x09, CHR 0x0A, CHR 0x0B, CHR 0x0C, CHR 0x0D, CHR 0x1C, CHR 0x1D, CHR 0x1E,
              CHR 0x1F, CHR 0x20, CHR 0x85, CHR 0xA0]"

definition strip :: "string \<Rightarrow> string" where
  "strip line = dropWhile is_space (rev (dropWhile is_space (rev line)))"

definition glob :: "string \<Rightarrow> string \<Rightarrow> (string \<times> node) list \<Rightarrow> (string \<times> node) list" where
  "glob pat dirpath es =
     map (\<lambda>(name, n). (path_join dirpath name, n)) (filter (\<lambda>(name, n). fnmatchcase name pat) es)"

fun rglob :: "string \<Rightarrow> string \<Rightarrow> node \<Rightarrow> (string \<times> node) list"
  and rglob_entries :: "string \<Rightarrow> string \<Rightarrow> (string \<times> node) list \<Rightarrow> (string \<times> node) list" where
  "rglob pat dirpath (File c) = []"
| "rglob pat dirpath (Dir es) = glob pat dirpath es @ rglob_entries pat dirpath es"
| "rglob_entries pat dirpath [] = []"
| "rglob_entries pat dirpath ((name, n) # es) =
     rglob pat (path_join dirpath name) n @ rglob_entries pat dirpath es"

text \<open>
  The matches of one item of the iterator: nothing for a directory, and nothing for a file
  that cannot be opened (the exception is printed and the loop goes on).
\<close>

definition item_matches :: "(string \<Rightarrow> string) \<Rightarrow> disk \<Rightarrow> string \<Rightarrow> string \<times> node \<Rightarrow> content_match list" where
  "item_matches lower s search_query_lower item =
     (case item of
        (item_path, Dir es) \<Rightarrow> []
      | (item_path, File c) \<Rightarrow>
          if item_path \<in> set (denied s) then []
          else map (\<lambda>(line_num, line).
                      \<lparr>file_path = item_path, line_number = line_num, line_content = strip line\<rparr>)
                 (filter (\<lambda>(line_num, line). sublist search_query_lower (lower line))
                    (zip [1 ..< Suc (length (lines_from [] c))] (lines_from [] c))))"

definition search_content ::
    "(string \<Rightarrow> string) \<Rightarrow> (string \<Rightarrow> string) \<Rightarrow> string list \<Rightarrow> string \<Rightarrow> string \<Rightarrow> bool \<Rightarrow> string option \<Rightarrow>
     disk \<Rightarrow> outcome" where
  "search_content lower resolve ALLOWED_DIRECTORIES data_path data_search_query data_recursive
     data_file_pattern s =
     (case normalize_path lower resolve ALLOWED_DIRECTORIES data_path of
        Inl e \<Rightarrow> (Inl e, s)
      | Inr base_path \<Rightarrow>
          (case os_lookup s base_path of
             Some (Dir es) \<Rightarrow>
               (case data_file_pattern of
                  None \<Rightarrow> (Inl TypeError, s)
                | Some pat \<Rightarrow>
                    if pat = [] then (Inl ValueError, s)
                    else
                      (let results = concat (map (item_matches lower s (lower data_search_query))
                             (if data_recursive then rglob pat base_path (Dir es)
                              else glob pat base_path es))
                       in (Inr (if results = [] then Matches [''No matches found'']
                                else ContentMatches results), s)))
           | _ \<Rightarrow>
               (Inl (HTTPException 400 (InvalidArgument ''Provided path is not a directory'')),
                s)))"

subsection \<open>What the specification says about edits\<close>

text \<open>
  The specification's wording, for comparison with \<^const>\<open>apply_edits\<close>: an edit replaces the
  first occurrence of its \<open>oldText\<close>, scanning from the start of the current text, and the
  edits apply one after the other to the text as modified so far. \<open>first_occurrence old cur pre post\<close>
  says that \<open>old\<close> occurs in \<open>cur\<close> between \<open>pre\<close> and \<open>post\<close> and nowhere further left.
\<close>

definition first_occurrence :: "string \<Rightarrow> string \<Rightarrow> string \<Rightarrow> string \<Rightarrow> bool" where
  "first_occurrence old cur pre post \<longleftrightarrow>
     cur = pre @ old @ post \<and>
     (\<forall>pre' post'. cur = pre' @ old @ post' \<longrightarrow> length pre \<le> length pre')"

inductive edited :: "EditOperation list \<Rightarrow> string \<Rightarrow> string \<Rightarrow> bool" where
  edited_Nil: "edited [] cur cur"
| edited_Cons: "first_occurrence (oldText edit) cur pre post \<Longrightarrow>
     edited edits (pre @ newText edit @ post) cur' \<Longrightarrow> edited (edit # edits) cur cur'"

subsection \<open>What the specification says about allowed roots\<close>

text \<open>
  The specification's wording, for comparison with \<^const>\<open>normalize_path\<close>: a path is beneath an
  allowed root when the components of the root are the first components of the path. The
  specification counts \<^verbatim>\<open>/data/foobar\<close> as not beneath the root \<^verbatim>\<open>/data/foo\<close>.
\<close>

definition beneath :: "string \<Rightarrow> string \<Rightarrow> bool" where
  "beneath p allowed_root \<longleftrightarrow> prefix (path_parts allowed_root) (path_parts p)"

text \<open>The exception of the Path Guard for a requested path.\<close>

definition access_denied :: "(string \<Rightarrow> string) \<Rightarrow> string list \<Rightarrow> string \<Rightarrow> py_exception" where
  "access_denied resolve ALLOWED_DIRECTORIES requested_path =
     HTTPException 403 (AccessDenied (resolve requested_path) ALLOWED_DIRECTORIES)"

subsection \<open>Well-formed confirmation file\<close>

text \<open>
  The confirmation file can be opened, and the JSON object in it has each token once (it
  was written from a dictionary).
\<close>

definition confirmation_file_ok :: "disk \<Rightarrow> bool" where
  "confirmation_file_ok s \<longleftrightarrow>
     \<not> confirmation_file_denied s \<and>
     (case confirmation_file s of None \<Rightarrow> True | Some data \<Rightarrow> distinct (map fst data))"

subsection \<open>An example disk\<close>

text \<open>
  A disk with the allowed root \<^verbatim>\<open>/data\<close> and a file outside it; a disk with the sibling
  directories \<^verbatim>\<open>/data/foo\<close> and \<^verbatim>\<open>/data/foobar\<close>; the first disk with a pending
  confirmation for the directory \<^verbatim>\<open>/data/dir\<close> and with one for the file \<^verbatim>\<open>/data/a.txt\<close>; and a
  stand-in for \<^verbatim>\<open>difflib.unified_diff\<close> that lists the labels and the lines.
\<close>

definition example_tree :: node where
  "example_tree =
     Dir [(''data'', Dir [(''a.txt'', File ''hello''),
                          (''dir'', Dir [(''f.txt'', File ''x'')]),
                          (''empty'', Dir []),
                          (''node_modules'',
                             Dir [(''report.txt'', File ''r''),
                                  (''pkg'', Dir [(''report.txt'', File ''r'')])])]),
          (''etc'', Dir [(''passwd'', File ''root'')])]"

definition example_disk :: disk where
  "example_disk =
     \<lparr>root = example_tree, denied = [], confirmation_file = None,
      confirmation_file_denied = False\<rparr>"

definition sibling_disk :: disk where
  "sibling_disk =
     \<lparr>root = Dir [(''data'', Dir [(''foo'', Dir []), (''foobar'', Dir [])])],
      denied = [], confirmation_file = None, confirmation_file_denied = False\<rparr>"

definition pending_disk :: disk where
  "pending_disk =
     example_disk\<lparr>confirmation_file :=
       Some [(''abcde'', \<lparr>stored_path = ''/data/dir'', stored_recursive = False,
                          expiry = 60000000\<rparr>)]\<rparr>"

definition pending_file_disk :: disk where
  "pending_file_disk =
     example_disk\<lparr>confirmation_file :=
       Some [(''abcde'', \<lparr>stored_path = ''/data/a.txt'', stored_recursive = False,
                          expiry = 60000000\<rparr>)]\<rparr>"

definition example_diff :: "string list \<Rightarrow> string list \<Rightarrow> string \<Rightarrow> string \<Rightarrow> string list" where
  "example_diff a b fromfile tofile =
     [''--- '' @ fromfile, ''+++ '' @ tofile] @ map (\<lambda>l. CHR ''-'' # l) a @ map (\<lambda>l. CHR ''+'' # l) b"

section \<open>Properties\<close>

subsection \<open>The directory tree\<close>

text \<open>
  Removing an entry takes it out of the tree and leaves every path that is neither above nor
  below it as it was; an entry that was put can be looked up.
\<close>

lemma map_of_AList_update: "map_of (AList.update k v es) k' = (if k' = k then Some v else map_of es k')"
  by (simp add: update_conv')

lemma map_of_AList_delete: "map_of (AList.delete k es) k' = (if k' = k then None else map_of es k')"
  by (simp add: delete_conv')

lemma lookup_remove_same: "xs \<noteq> [] \<Longrightarrow> lookup (remove xs n) xs = None"
  by (induction xs n rule: remove.induct)
     (auto simp: map_of_AList_update map_of_AList_delete split: option.splits)

lemma lookup_remove_other:
  "\<not> prefix xs ys \<Longrightarrow> \<not> prefix ys xs \<Longrightarrow> lookup (remove xs n) ys = lookup n ys"
proof (induction xs n arbitrary: ys rule: remove.induct)
  case (1 n)
  then show ?case by simp
next
  case (2 x xs c)
  then show ?case by simp
next
  case (3 x es)
  then show ?case
    by (cases ys) (auto simp: map_of_AList_delete split: option.splits)
next
  case (4 x y ys' es)
  show ?case
  proof (cases ys)
    case Nil
    with "4.prems" show ?thesis by simp
  next
    case (Cons z zs)
    show ?thesis
    proof (cases "map_of es x")
      case None
      then show ?thesis by simp
    next
      case (Some m)
      show ?thesis
      proof (cases "z = x")
        case True
        with 4 Cons have "\<not> prefix (y # ys') zs" "\<not> prefix zs (y # ys')" by simp_all
        with 4 Some have "lookup (remove (y # ys') m) zs = lookup m zs" by blast
        with Some Cons True show ?thesis by (simp add: map_of_AList_update)
      next
        case False
        with Some Cons show ?thesis by (simp add: map_of_AList_update)
      qed
    qed
  qed
qed

lemma lookup_put_same:
  "xs \<noteq> [] \<Longrightarrow> lookup n (butlast xs) = Some (Dir es) \<Longrightarrow> lookup (put xs new n) xs = Some new"
proof (induction xs new n arbitrary: es rule: put.induct)
  case (1 new n)
  then show ?case by simp
next
  case (2 x xs new c)
  then show ?case by (cases xs) auto
next
  case (3 x new es')
  then show ?case by (simp add: map_of_AList_update)
next
  case (4 x y ys new es')
  then show ?case
    by (auto simp: map_of_AList_update split: option.splits)
qed

lemma read_text_write_text:
  assumes "write_text s p content = Inr s'"
  shows "os_lookup s' p = Some (File content) \<and> read_text s' p = Inr (universal_newlines content)"
proof -
  from assms have nd: "p \<notin> set (denied s)" and ne: "path_parts p \<noteq> []"
    by (auto simp: write_text_def split: if_splits)
  from assms nd ne obtain es where parent: "lookup (root s) (butlast (path_parts p)) = Some (Dir es)"
    and s': "s' = s\<lparr>root := put (path_parts p) (File content) (root s)\<rparr>"
    by (auto simp: write_text_def split: if_splits option.splits node.splits)
  from lookup_put_same [OF ne parent] s' nd show ?thesis
    by (simp add: read_text_def os_lookup_def)
qed

lemma path_exists_confirmation_file [simp]:
  "path_exists (s\<lparr>confirmation_file := x\<rparr>) p = path_exists s p"
  "is_file (s\<lparr>confirmation_file := x\<rparr>) p = is_file s p"
  "is_dir (s\<lparr>confirmation_file := x\<rparr>) p = is_dir s p"
  "os_lookup (s\<lparr>confirmation_file := x\<rparr>) p = os_lookup s p"
  by (simp_all add: path_exists_def is_file_def is_dir_def os_lookup_def)

subsection \<open>Path Guard\<close>

lemma normalize_path_rejects:
  assumes "\<forall>allowed \<in> set A. \<not> startswith (lower (resolve P)) (lower allowed)"
  shows "normalize_path lower resolve A P = Inl (access_denied resolve A P)"
  using assms by (simp add: normalize_path_def access_denied_def list_ex_iff)

lemma handlers_reject:
  assumes "normalize_path lower resolve A P = Inl e"
  shows "read_file lower resolve A P s = (Inl e, s)"
    and "write_file lower resolve A P content s = (Inl e, s)"
    and "edit_file lower resolve A ud P edits dry s = (Inl e, s)"
    and "create_directory lower resolve A P s = (Inl e, s)"
    and "list_directory lower resolve A P s = (Inl e, s)"
    and "directory_tree lower resolve A P s = (Inl e, s)"
    and "search_files lower resolve A P pat excl s = (Inl e, s)"
    and "search_content lower resolve A P query recursive file_pattern s = (Inl e, s)"
    and "get_metadata lower resolve A os_stat P s = (Inl e, s)"
    and "delete_path lower resolve A now_load now rb P r tok s = (Inl e, s)"
    and "move_path lower resolve A shutil_move P other s = (Inl e, s)"
  using assms
  by (simp_all add: read_file_def write_file_def edit_file_def create_directory_def
      list_directory_def directory_tree_def search_files_def search_content_def
      get_metadata_def delete_path_def move_path_def)

lemma move_path_rejects_destination:
  assumes "normalize_path lower resolve A P = Inl e"
  shows "move_path lower resolve A shutil_move other P s =
     (Inl (case normalize_path lower resolve A other of Inl e' \<Rightarrow> e' | Inr source \<Rightarrow> e), s)"
  using assms by (simp add: move_path_def split: sum.splits)

text \<open>
  What the guard does reject: a requested path whose resolved form does not start, as a
  string compared in lower case, with any allowed root. \<open>normalize_path\<close> then fails with the
  403 \<open>AccessDenied\<close> exception, and every handler that takes a path returns that exception and
  leaves the disk (tree, permissions and confirmation file) as it was. \<^verbatim>\<open>delete_path\<close> loads the
  confirmation file before the check, which writes nothing; \<^verbatim>\<open>move_path\<close> checks the source
  first and then the destination.
\<close>

lemma path_guard_rejects:
  assumes "\<forall>allowed \<in> set A. \<not> startswith (lower (resolve P)) (lower allowed)"
  shows "normalize_path lower resolve A P = Inl (access_denied resolve A P)
     \<and> read_file lower resolve A P s = (Inl (access_denied resolve A P), s)
     \<and> write_file lower resolve A P content s = (Inl (access_denied resolve A P), s)
     \<and> edit_file lower resolve A ud P edits dry s = (Inl (access_denied resolve A P), s)
     \<and> create_directory lower resolve A P s = (Inl (access_denied resolve A P), s)
     \<and> list_directory lower resolve A P s = (Inl (access_denied resolve A P), s)
     \<and> directory_tree lower resolve A P s = (Inl (access_denied resolve A P), s)
     \<and> search_files lower resolve A P pat excl s = (Inl (access_denied resolve A P), s)
     \<and> search_content lower resolve A P query recursive file_pattern s
           = (Inl (access_denied resolve A P), s)
     \<and> get_metadata lower resolve A os_stat P s = (Inl (access_denied resolve A P), s)
     \<and> delete_path lower resolve A now_load now rb P r tok s = (Inl (access_denied resolve A P), s)
     \<and> move_path lower resolve A shutil_move P other s = (Inl (access_denied resolve A P), s)
     \<and> move_path lower resolve A shutil_move other P s =
           (Inl (case normalize_path lower resolve A other of
                   Inl e \<Rightarrow> e
                 | Inr source \<Rightarrow> access_denied resolve A P), s)"
proof -
  from assms have n: "normalize_path lower resolve A P = Inl (access_denied resolve A P)"
    by (rule normalize_path_rejects)
  show ?thesis
    by (intro conjI n handlers_reject [OF n] move_path_rejects_destination [OF n])
qed

text \<open>
  C1, on the code. The claim is that a path beneath no allowed root is refused and nothing is
  modified. With \<^verbatim>\<open>/data/foo\<close> as the only allowed root, the path \<^verbatim>\<open>/data/foobar/a.txt\<close> is
  beneath no allowed root; its string starts with the string of the root, so \<open>normalize_path\<close>
  returns it, and \<^verbatim>\<open>write_file\<close> creates the file in the sibling directory \<^verbatim>\<open>/data/foobar\<close>.
\<close>

theorem path_guard_accepts_sibling:
  "\<not> list_ex (beneath ''/data/foobar/a.txt'') [''/data/foo'']
   \<and> normalize_path ascii_lower id [''/data/foo''] ''/data/foobar/a.txt''
       = Inr ''/data/foobar/a.txt''
   \<and> write_file ascii_lower id [''/data/foo''] ''/data/foobar/a.txt'' ''x'' sibling_disk =
       (Inr (SuccessResponse ''Successfully wrote to /data/foobar/a.txt''),
        sibling_disk\<lparr>root :=
          Dir [(''data'', Dir [(''foo'', Dir []), (''foobar'', Dir [(''a.txt'', File ''x'')])])]\<rparr>)"
  by code_simp

subsection \<open>Confirmation Store and delete\<close>

lemma map_of_filter_values:
  "distinct (map fst data) \<Longrightarrow>
   map_of (filter (\<lambda>(k, v). P v) data) t =
     (case map_of data t of None \<Rightarrow> None | Some c \<Rightarrow> if P c then Some c else None)"
proof (induction data)
  case Nil
  show ?case by simp
next
  case (Cons kv data)
  obtain k v where kv: "kv = (k, v)" by (cases kv)
  from Cons.prems kv have notin: "k \<notin> fst ` set data" and d: "distinct (map fst data)"
    by auto
  from notin have none: "map_of data k = None"
    by (simp add: map_of_eq_None_iff)
  then have "map_of (filter (\<lambda>(k, v). P v) data) k = None"
    using Cons.IH [OF d] by (simp add: map_of_eq_None_iff image_iff) 
  with Cons.IH [OF d] kv none show ?case by (auto split: option.splits)
qed

lemma map_of_load_confirmations:
  assumes "\<not> confirmation_file_denied s" and "confirmation_file s = Some data"
    and "distinct (map fst data)"
  shows "map_of (load_confirmations now s) t =
     (case map_of data t of None \<Rightarrow> None | Some c \<Rightarrow> if expiry c > now then Some c else None)"
  using assms by (simp add: load_confirmations_def map_of_filter_values)

lemma map_of_load:
  assumes "confirmation_file_ok s"
  shows "map_of (load_confirmations now s) t =
     (case confirmation_file s of
        None \<Rightarrow> None
      | Some data \<Rightarrow>
          (case map_of data t of None \<Rightarrow> None | Some c \<Rightarrow> if expiry c > now then Some c else None))"
proof (cases "confirmation_file s")
  case None
  then show ?thesis by (simp add: load_confirmations_def)
next
  case (Some data)
  with assms show ?thesis
    by (simp add: confirmation_file_ok_def map_of_load_confirmations)
qed

lemma distinct_load: "confirmation_file_ok s \<Longrightarrow> distinct (map fst (load_confirmations now s))"
  by (auto simp: confirmation_file_ok_def load_confirmations_def distinct_map_filter
      split: option.splits)

lemma confirmation_file_ok_update:
  "confirmation_file_ok s \<Longrightarrow> distinct (map fst data) \<Longrightarrow>
     confirmation_file_ok (s\<lparr>confirmation_file := Some data\<rparr>)"
  by (simp add: confirmation_file_ok_def)

lemma length_token_hex: "length (token_hex bs) = 2 * length bs"
  by (induction bs) (simp_all add: token_hex_def hex_byte_def)

lemma token_nonempty: "length bs = 3 \<Longrightarrow> take 5 (token_hex bs) \<noteq> []"
  using length_token_hex [of bs] by auto

lemma delete_try_confirmation_file:
  "delete_try path data_path data_recursive s = (res, s') \<Longrightarrow>
     confirmation_file s' = confirmation_file s \<and>
     confirmation_file_denied s' = confirmation_file_denied s \<and> denied s' = denied s"
  by (auto simp: delete_try_def unlink_def rmtree_def rmdir_def
      split: if_splits option.splits node.splits sum.splits)

lemma delete_try_removes:
  assumes "path \<notin> set (denied s)" and "path_parts path \<noteq> []"
    and "is_file s path \<or> (is_dir s path \<and> data_recursive) \<or> os_lookup s path = Some (Dir [])"
  shows "\<exists>msg. delete_try path data_path data_recursive s =
           (Inr (SuccessResponse msg), s\<lparr>root := remove (path_parts path) (root s)\<rparr>)"
  using assms
  by (auto simp: delete_try_def unlink_def rmtree_def rmdir_def path_exists_def is_file_def
      is_dir_def split: option.splits node.splits)

lemma delete_try_not_empty:
  assumes "path \<notin> set (denied s)" and "os_lookup s path = Some (Dir es)" and "es \<noteq> []"
  shows "delete_try path data_path False s =
           (Inl (HTTPException 400 (DirectoryNotEmpty (OSError ''Directory not empty''))), s)"
  using assms
  by (auto simp: delete_try_def rmdir_def path_exists_def is_file_def is_dir_def)

lemma delete_request_root:
  "delete_request now rb pending path data_path data_recursive s = (res, s') \<Longrightarrow> root s' = root s"
  by (auto simp: delete_request_def save_confirmations_def Let_def split: if_splits)

lemma delete_without_token_root:
  assumes "tok = None \<or> tok = Some []"
  shows "root (snd (delete_path lower resolve A l n rb data_path data_recursive tok s)) = root s"
proof (cases "normalize_path lower resolve A data_path")
  case (Inl e)
  with assms show ?thesis by (auto simp: delete_path_def)
next
  case (Inr path)
  obtain res s' where r: "delete_request n rb (load_confirmations l s) path data_path data_recursive s = (res, s')"
    by (cases "delete_request n rb (load_confirmations l s) path data_path data_recursive s")
  from delete_request_root [OF r] Inr r assms show ?thesis
    by (auto simp: delete_path_def)
qed

lemma delete_request_issues:
  assumes "confirmation_file_ok s" and "normalize_path lower resolve A data_path = Inr path"
    and "path_exists s path" and "tok = None \<or> tok = Some []"
  shows "delete_path lower resolve A l n rb data_path data_recursive tok s =
     (Inr (ConfirmationRequiredResponse
        (''`Confirm deletion of file: '' @ data_path @ '' with token '' @ take 5 (token_hex rb) @ ''`'')
        (take 5 (token_hex rb)) (n + timedelta_seconds CONFIRMATION_TTL_SECONDS)),
      s\<lparr>confirmation_file := Some (AList.update (take 5 (token_hex rb))
          \<lparr>stored_path = data_path, stored_recursive = data_recursive,
           expiry = n + timedelta_seconds CONFIRMATION_TTL_SECONDS\<rparr> (load_confirmations l s))\<rparr>)"
  using assms
  by (auto simp: delete_path_def delete_request_def save_confirmations_def Let_def
      confirmation_file_ok_def)

lemma delete_confirm_valid:
  assumes "confirmation_file_ok s" and "normalize_path lower resolve A data_path = Inr path"
    and "confirmation_file s = Some data" and "map_of data token = Some c" and "token \<noteq> []"
    and "l < expiry c" and "n \<le> expiry c"
    and "stored_path c = data_path" and "stored_recursive c = data_recursive"
  shows "delete_path lower resolve A l n rb data_path data_recursive (Some token) s =
     (case delete_try path data_path data_recursive
             (s\<lparr>confirmation_file := Some (AList.delete token (load_confirmations l s))\<rparr>) of
        (Inl e, s') \<Rightarrow> (Inl (delete_path_except data_path e), s')
      | (Inr r, s') \<Rightarrow> (Inr r, s'))"
  using assms
  by (auto simp: delete_path_def delete_confirm_def map_of_load save_confirmations_def
      confirmation_file_ok_def)

lemma delete_unknown_token:
  assumes "confirmation_file_ok s" and "normalize_path lower resolve A data_path = Inr path"
    and "token \<noteq> []"
    and "case confirmation_file s of None \<Rightarrow> True | Some data \<Rightarrow> map_of data token = None"
  shows "delete_path lower resolve A l n rb data_path data_recursive (Some token) s =
     (Inl (HTTPException 400 InvalidToken), s)"
  using assms
  by (auto simp: delete_path_def delete_confirm_def map_of_load split: option.splits)

lemma confirmed_delete_succeeds:
  assumes ok: "confirmation_file_ok s"
    and guard: "normalize_path lower resolve A data_path = Inr path"
    and store: "confirmation_file s = Some data" "map_of data token = Some c" "token \<noteq> []"
    and live: "l < expiry c" "n \<le> expiry c"
    and match: "stored_path c = data_path" "stored_recursive c = data_recursive"
    and target: "path \<notin> set (denied s)" "path_parts path \<noteq> []"
      "is_file s path \<or> (is_dir s path \<and> data_recursive) \<or> os_lookup s path = Some (Dir [])"
  shows "\<exists>msg. delete_path lower resolve A l n rb data_path data_recursive (Some token) s =
     (Inr (SuccessResponse msg),
      s\<lparr>confirmation_file := Some (AList.delete token (load_confirmations l s)),
        root := remove (path_parts path) (root s)\<rparr>)"
proof -
  let ?s' = "s\<lparr>confirmation_file := Some (AList.delete token (load_confirmations l s))\<rparr>"
  have "path \<notin> set (denied ?s')" "is_file ?s' path \<or> (is_dir ?s' path \<and> data_recursive)
      \<or> os_lookup ?s' path = Some (Dir [])"
    using target by simp_all
  from delete_try_removes [OF this(1) target(2) this(2)] obtain msg where
    "delete_try path data_path data_recursive ?s' =
       (Inr (SuccessResponse msg), ?s'\<lparr>root := remove (path_parts path) (root ?s')\<rparr>)"
    by blast
  with delete_confirm_valid [OF ok guard store live match, of rb] show ?thesis by simp
qed

text \<open>
  A valid, unexpired and matching token for a directory that is not empty, without the
  recursive flag: the token is consumed, nothing is removed, and the request fails.
\<close>

lemma confirmed_delete_not_empty:
  assumes ok: "confirmation_file_ok s"
    and guard: "normalize_path lower resolve A data_path = Inr path"
    and store: "confirmation_file s = Some data" "map_of data token = Some c" "token \<noteq> []"
    and live: "l < expiry c" "n \<le> expiry c"
    and match: "stored_path c = data_path" "stored_recursive c = False"
    and target: "path \<notin> set (denied s)" "os_lookup s path = Some (Dir es)" "es \<noteq> []"
  shows "delete_path lower resolve A l n rb data_path False (Some token) s =
     (Inl (HTTPException 500 (IOFailure (''Failed to delete '' @ data_path)
        (HTTPException 400 (DirectoryNotEmpty (OSError ''Directory not empty''))))),
      s\<lparr>confirmation_file := Some (AList.delete token (load_confirmations l s))\<rparr>)"
proof -
  let ?s' = "s\<lparr>confirmation_file := Some (AList.delete token (load_confirmations l s))\<rparr>"
  have "path \<notin> set (denied ?s')" "os_lookup ?s' path = Some (Dir es)"
    using target by simp_all
  from delete_try_not_empty [OF this target(3)]
    delete_confirm_valid [OF ok guard store live match(1), of False rb] match(2)
  show ?thesis by simp
qed

lemma two_phase_steps:
  assumes ok: "confirmation_file_ok s"
    and guard: "normalize_path lower resolve A data_path = Inr path"
    and bytes: "length random_bytes = 3"
    and target: "path \<notin> set (denied s)" "path_parts path \<noteq> []"
      "is_file s path \<or> (is_dir s path \<and> data_recursive) \<or> os_lookup s path = Some (Dir [])"
    and clocks: "l2 < n1 + timedelta_seconds CONFIRMATION_TTL_SECONDS"
      "n2 \<le> n1 + timedelta_seconds CONFIRMATION_TTL_SECONDS"
    and first: "delete_path lower resolve A l1 n1 random_bytes data_path data_recursive None s = (r1, s1)"
    and second: "delete_path lower resolve A l2 n2 rb2 data_path data_recursive
                   (Some (take 5 (token_hex random_bytes))) s1 = (r2, s2)"
    and third: "delete_path lower resolve A l3 n3 rb3 data_path data_recursive
                   (Some (take 5 (token_hex random_bytes))) s2 = (r3, s3)"
  shows "(\<exists>msg. r1 = Inr (ConfirmationRequiredResponse msg (take 5 (token_hex random_bytes))
                          (n1 + timedelta_seconds CONFIRMATION_TTL_SECONDS)))
       \<and> root s1 = root s
       \<and> (\<exists>msg. r2 = Inr (SuccessResponse msg))
       \<and> root s2 = remove (path_parts path) (root s)
       \<and> \<not> path_exists s2 path
       \<and> (\<forall>q. \<not> prefix (path_parts path) (path_parts q)
               \<and> \<not> prefix (path_parts q) (path_parts path)
             \<longrightarrow> os_lookup s2 q = os_lookup s q)
       \<and> r3 = Inl (HTTPException 400 InvalidToken)
       \<and> s3 = s2"
proof -
  let ?token = "take 5 (token_hex random_bytes)"
  let ?expiry = "n1 + timedelta_seconds CONFIRMATION_TTL_SECONDS"
  let ?c = "\<lparr>stored_path = data_path, stored_recursive = data_recursive, expiry = ?expiry\<rparr>"
  let ?data1 = "AList.update ?token ?c (load_confirmations l1 s)"
  from target(3) have ex: "path_exists s path"
    by (auto simp: path_exists_def is_file_def is_dir_def split: option.splits)
  have tok: "?token \<noteq> []" using bytes by (rule token_nonempty)
  from delete_request_issues [OF ok guard ex, of None l1 n1 random_bytes data_recursive] first
  have r1: "r1 = Inr (ConfirmationRequiredResponse
              (''`Confirm deletion of file: '' @ data_path @ '' with token '' @ ?token @ ''`'')
              ?token ?expiry)"
    and s1: "s1 = s\<lparr>confirmation_file := Some ?data1\<rparr>"
    by simp_all
  have d1: "distinct (map fst ?data1)"
    using distinct_load [OF ok] by (simp add: distinct_update)
  from ok d1 s1 have ok1: "confirmation_file_ok s1"
    by (simp add: confirmation_file_ok_update)
  have file1: "confirmation_file s1 = Some ?data1" using s1 by simp
  have m1: "map_of ?data1 ?token = Some ?c" by (simp add: map_of_AList_update)
  let ?s1' = "s1\<lparr>confirmation_file := Some (AList.delete ?token (load_confirmations l2 s1))\<rparr>"
  have step2: "delete_path lower resolve A l2 n2 rb2 data_path data_recursive (Some ?token) s1 =
     (case delete_try path data_path data_recursive ?s1' of
        (Inl e, s') \<Rightarrow> (Inl (delete_path_except data_path e), s')
      | (Inr r, s') \<Rightarrow> (Inr r, s'))"
    using clocks by (intro delete_confirm_valid [OF ok1 guard file1 m1 tok]) simp_all
  have "path \<notin> set (denied ?s1')" "is_file ?s1' path \<or> (is_dir ?s1' path \<and> data_recursive)
      \<or> os_lookup ?s1' path = Some (Dir [])"
    using target s1 by simp_all
  from delete_try_removes [OF this(1) target(2) this(2)] obtain msg where
    dt: "delete_try path data_path data_recursive ?s1' =
           (Inr (SuccessResponse msg), ?s1'\<lparr>root := remove (path_parts path) (root ?s1')\<rparr>)"
    by blast
  from step2 dt second have r2: "r2 = Inr (SuccessResponse msg)"
    and s2: "s2 = ?s1'\<lparr>root := remove (path_parts path) (root ?s1')\<rparr>"
    by simp_all
  from s2 s1 have root2: "root s2 = remove (path_parts path) (root s)" by simp
  then have gone: "\<not> path_exists s2 path"
    using target(2) by (simp add: path_exists_def os_lookup_def lookup_remove_same)
  have d2: "distinct (map fst (AList.delete ?token (load_confirmations l2 s1)))"
    using distinct_load [OF ok1] by (simp add: distinct_delete)
  have ok2: "confirmation_file_ok s2"
    using ok1 d2 s2 by (simp add: confirmation_file_ok_def)
  have "case confirmation_file s2 of None \<Rightarrow> True | Some data \<Rightarrow> map_of data ?token = None"
    using s2 by (simp add: map_of_AList_delete)
  from delete_unknown_token [OF ok2 guard tok this] third
  have "r3 = Inl (HTTPException 400 InvalidToken)" "s3 = s2" by simp_all
  moreover from root2 have "\<forall>q. \<not> prefix (path_parts path) (path_parts q)
               \<and> \<not> prefix (path_parts q) (path_parts path)
             \<longrightarrow> os_lookup s2 q = os_lookup s q"
    by (simp add: os_lookup_def lookup_remove_other)
  ultimately show ?thesis using r1 s1 r2 root2 gone by simp
qed

lemma token_fate:
  assumes ok: "confirmation_file_ok s"
    and live: "confirmation_file s = Some data" "map_of data t = Some c" "now_load < expiry c"
      "t \<noteq> []"
    and run: "delete_path lower resolve A now_load now rb P r tok s = (res, s')"
  shows "\<exists>data'. confirmation_file s' = Some data' \<and>
           map_of data' t =
             (if tok = Some t \<and> (\<exists>path. normalize_path lower resolve A P = Inr path) \<and>
                 (expiry c < now \<or> (stored_path c = P \<and> stored_recursive c = r))
              then None
              else if (tok = None \<or> tok = Some [])
                 \<and> (\<exists>path. normalize_path lower resolve A P = Inr path \<and> path_exists s path)
                 \<and> take 5 (token_hex rb) = t
              then Some \<lparr>stored_path = P, stored_recursive = r,
                          expiry = now + timedelta_seconds CONFIRMATION_TTL_SECONDS\<rparr>
              else Some c)"
proof (cases "normalize_path lower resolve A P")
  case (Inl e)
  with run live show ?thesis by (auto simp: delete_path_def)
next
  case (Inr path)
  let ?pending = "load_confirmations now_load s"
  from ok live have mt: "map_of ?pending t = Some c" by (simp add: map_of_load)
  from ok have nd: "\<not> confirmation_file_denied s" by (simp add: confirmation_file_ok_def)
  show ?thesis
  proof (cases "tok = None \<or> tok = Some []")
    case True
    with run Inr have req: "delete_request now rb ?pending path P r s = (res, s')"
      by (auto simp: delete_path_def)
    show ?thesis
    proof (cases "path_exists s path")
      case False
      with req have "s' = s" by (auto simp: delete_request_def)
      with live True False Inr show ?thesis by auto
    next
      case ex: True
      with req nd have "confirmation_file s' = Some (AList.update (take 5 (token_hex rb))
          \<lparr>stored_path = P, stored_recursive = r,
           expiry = now + timedelta_seconds CONFIRMATION_TTL_SECONDS\<rparr> ?pending)"
        by (auto simp: delete_request_def save_confirmations_def Let_def)
      with mt True live(4) ex Inr show ?thesis by (auto simp: map_of_AList_update)
    qed
  next
    case False
    then obtain u where u: "tok = Some u" "u \<noteq> []" by (cases tok) auto
    with run Inr have conf: "delete_confirm now ?pending path P r u s = (res, s')"
      by (simp add: delete_path_def)
    show ?thesis
    proof (cases "map_of ?pending u")
      case None
      with conf have "s' = s" by (auto simp: delete_confirm_def)
      moreover from None mt have "u \<noteq> t" by auto
      ultimately show ?thesis using live u by auto
    next
      case (Some cu)
      have same: "u = t \<Longrightarrow> cu = c" using Some mt by simp
      consider (expired) "expiry cu < now"
        | (mismatch) "\<not> expiry cu < now" "stored_path cu \<noteq> P \<or> stored_recursive cu \<noteq> r"
        | (valid) "\<not> expiry cu < now" "stored_path cu = P" "stored_recursive cu = r"
        by blast
      then show ?thesis
      proof cases
        case expired
        with conf Some nd have "confirmation_file s' = Some (AList.delete u ?pending)"
          by (auto simp: delete_confirm_def save_confirmations_def)
        with mt u Inr expired same show ?thesis by (auto simp: map_of_AList_delete)
      next
        case mismatch
        with conf Some have "s' = s" by (auto simp: delete_confirm_def)
        with live u mismatch same show ?thesis by auto
      next
        case valid
        obtain res0 s0 where dt: "delete_try path P r
            (save_confirmations (AList.delete u ?pending) s) = (res0, s0)"
          by (cases "delete_try path P r (save_confirmations (AList.delete u ?pending) s)")
        with conf Some valid have "s' = s0"
          by (auto simp: delete_confirm_def split: sum.splits)
        with delete_try_confirmation_file [OF dt] nd
        have "confirmation_file s' = Some (AList.delete u ?pending)"
          by (simp add: save_confirmations_def)
        with mt u Inr valid same show ?thesis by (auto simp: map_of_AList_delete)
      qed
    qed
  qed
qed

lemma delete_path_except_not_expired:
  "delete_path_except data_path e \<noteq> HTTPException 400 TokenExpired"
  by (cases e) simp_all

lemma startup_clears: "confirmation_file_ok s \<Longrightarrow> confirmation_file (startup s) = None"
  by (simp add: startup_def confirmation_file_ok_def split: option.splits)

lemma example_disk_ok: "confirmation_file_ok example_disk"
  by (simp add: confirmation_file_ok_def example_disk_def)

lemma pending_disk_ok: "confirmation_file_ok pending_disk"
  by (simp add: confirmation_file_ok_def pending_disk_def example_disk_def)

text \<open>
  C2, as the code has it. A delete request without a token (or with the empty token) leaves the
  whole directory tree as it was. When the confirmation file is well formed, the path passes
  the Path Guard and the first request was answered with a token, a second request with that
  token, the same path and the same recursive flag, loaded and handled before the expiry,
  answers with success and removes the target, provided the operating system permits it and
  the target is a file, an empty directory, or a directory with the recursive flag set; the
  tree is then the old one without the target, and every path that is neither the target,
  nor below it, nor above it is as before. A third request with the same token fails with
  \<open>InvalidToken\<close> and changes nothing, so the target is removed once.
\<close>

theorem delete_two_phase:
  "(tok = None \<or> tok = Some [] \<longrightarrow>
      root (snd (delete_path lower resolve A l n rb data_path data_recursive tok s)) = root s)
   \<and> (confirmation_file_ok s \<and> normalize_path lower resolve A data_path = Inr path
        \<and> length random_bytes = 3
        \<and> path \<notin> set (denied s) \<and> path_parts path \<noteq> []
        \<and> (is_file s path \<or> (is_dir s path \<and> data_recursive) \<or> os_lookup s path = Some (Dir []))
        \<and> l2 < n1 + timedelta_seconds CONFIRMATION_TTL_SECONDS
        \<and> n2 \<le> n1 + timedelta_seconds CONFIRMATION_TTL_SECONDS
        \<and> delete_path lower resolve A l1 n1 random_bytes data_path data_recursive None s = (r1, s1)
        \<and> delete_path lower resolve A l2 n2 rb2 data_path data_recursive
             (Some (take 5 (token_hex random_bytes))) s1 = (r2, s2)
        \<and> delete_path lower resolve A l3 n3 rb3 data_path data_recursive
             (Some (take 5 (token_hex random_bytes))) s2 = (r3, s3)
      \<longrightarrow> (\<exists>msg. r1 = Inr (ConfirmationRequiredResponse msg (take 5 (token_hex random_bytes))
                          (n1 + timedelta_seconds CONFIRMATION_TTL_SECONDS)))
          \<and> root s1 = root s
          \<and> (\<exists>msg. r2 = Inr (SuccessResponse msg))
          \<and> root s2 = remove (path_parts path) (root s)
          \<and> \<not> path_exists s2 path
          \<and> (\<forall>q. \<not> prefix (path_parts path) (path_parts q)
                  \<and> \<not> prefix (path_parts q) (path_parts path)
                \<longrightarrow> os_lookup s2 q = os_lookup s q)
          \<and> r3 = Inl (HTTPException 400 InvalidToken)
          \<and> s3 = s2)"
  by (rule conjI, rule impI, erule delete_without_token_root,
      rule impI, elim conjE, rule two_phase_steps; assumption)

text \<open>
  An instance: the file \<^verbatim>\<open>/data/a.txt\<close> is requested, confirmed and gone; the token does not work
  a second time.
\<close>

theorem delete_two_phase_witness:
  "\<exists>r1 s1 r2 s2 r3 s3.
      delete_path ascii_lower id [''/data''] 0 0 [0xab, 0xcd, 0xef] ''/data/a.txt'' False None example_disk
        = (r1, s1)
    \<and> delete_path ascii_lower id [''/data''] 1 1 [] ''/data/a.txt'' False (Some ''abcde'') s1 = (r2, s2)
    \<and> delete_path ascii_lower id [''/data''] 2 2 [] ''/data/a.txt'' False (Some ''abcde'') s2 = (r3, s3)
    \<and> root s1 = root example_disk
    \<and> (\<exists>msg. r2 = Inr (SuccessResponse msg))
    \<and> \<not> path_exists s2 ''/data/a.txt''
    \<and> r3 = Inl (HTTPException 400 InvalidToken) \<and> s3 = s2"
proof -
  have tok: "take 5 (token_hex [0xab, 0xcd, 0xef]) = ''abcde''" by code_simp
  obtain r1 s1 where 1:
    "delete_path ascii_lower id [''/data''] 0 0 [0xab, 0xcd, 0xef] ''/data/a.txt'' False None example_disk
       = (r1, s1)"
    by (cases "delete_path ascii_lower id [''/data''] 0 0 [0xab, 0xcd, 0xef] ''/data/a.txt'' False None
                 example_disk")
  obtain r2 s2 where 2:
    "delete_path ascii_lower id [''/data''] 1 1 [] ''/data/a.txt'' False (Some ''abcde'') s1 = (r2, s2)"
    by (cases "delete_path ascii_lower id [''/data''] 1 1 [] ''/data/a.txt'' False (Some ''abcde'') s1")
  obtain r3 s3 where 3:
    "delete_path ascii_lower id [''/data''] 2 2 [] ''/data/a.txt'' False (Some ''abcde'') s2 = (r3, s3)"
    by (cases "delete_path ascii_lower id [''/data''] 2 2 [] ''/data/a.txt'' False (Some ''abcde'') s2")
  have g: "normalize_path ascii_lower id [''/data''] ''/data/a.txt'' = Inr ''/data/a.txt''" by code_simp
  have len: "length [0xab, 0xcd, 0xef :: 8 word] = 3" by simp
  have t: "''/data/a.txt'' \<notin> set (denied example_disk)" "path_parts ''/data/a.txt'' \<noteq> []"
    "is_file example_disk ''/data/a.txt''"
    by code_simp+
  have c: "(1::int) < 0 + timedelta_seconds CONFIRMATION_TTL_SECONDS"
    "(1::int) \<le> 0 + timedelta_seconds CONFIRMATION_TTL_SECONDS"
    by (simp_all add: timedelta_seconds_def CONFIRMATION_TTL_SECONDS_def)
  from delete_two_phase [where lower = ascii_lower and resolve = id and A = "[''/data'']" and s = example_disk
      and data_path = "''/data/a.txt''" and path = "''/data/a.txt''" and data_recursive = False
      and random_bytes = "[0xab, 0xcd, 0xef]" and ?l1.0 = 0 and ?n1.0 = 0 and ?l2.0 = 1
      and ?n2.0 = 1 and ?rb2.0 = "[]" and ?l3.0 = 2 and ?n3.0 = 2 and ?rb3.0 = "[]"
      and ?r1.0 = r1 and ?s1.0 = s1 and ?r2.0 = r2 and ?s2.0 = s2 and ?r3.0 = r3 and ?s3.0 = s3]
    example_disk_ok g len t c 1 2 3 tok
  have "root s1 = root example_disk \<and> (\<exists>msg. r2 = Inr (SuccessResponse msg))
    \<and> \<not> path_exists s2 ''/data/a.txt''
    \<and> r3 = Inl (HTTPException 400 InvalidToken) \<and> s3 = s2"
    by simp
  with 1 2 3 show ?thesis by blast
qed

text \<open>
  A directory that is not empty, requested and confirmed without the recursive flag: the
  token is valid, unexpired and matching, and the target is still there after the request.
\<close>

theorem delete_two_phase_counterexample:
  "delete_path ascii_lower id [''/data''] 0 0 [0xab, 0xcd, 0xef] ''/data/dir'' False None example_disk =
     (Inr (ConfirmationRequiredResponse
        ''`Confirm deletion of file: /data/dir with token abcde`'' ''abcde'' 60000000),
      pending_disk)
   \<and> delete_path ascii_lower id [''/data''] 1000000 1000000 [] ''/data/dir'' False (Some ''abcde'') pending_disk =
     (Inl (HTTPException 500 (IOFailure ''Failed to delete /data/dir''
        (HTTPException 400 (DirectoryNotEmpty (OSError ''Directory not empty''))))),
      pending_disk\<lparr>confirmation_file := Some []\<rparr>)
   \<and> path_exists (pending_disk\<lparr>confirmation_file := Some []\<rparr>) ''/data/dir''"
  by code_simp

text \<open>
  C3, as the code has it. The process start clears the store. For a token that is live when
  the store is loaded, a delete request leaves the store in one of three ways. The token is
  deleted exactly when the request presents it, passes the Path Guard, and either finds the
  token expired or finds path and recursive flag matching; in the latter case the token is
  deleted before the deletion is attempted, whether or not it then succeeds. Its confirmation
  is replaced by a new one when a request without a token passes the Path Guard for an
  existing target and generates the same token. After every other outcome the token is in the
  store with its path, recursive flag and expiry as they were, so it stays live until its
  time to live has elapsed.
\<close>

theorem token_deleted_exactly_when:
  assumes "confirmation_file_ok s"
  shows "confirmation_file (startup s) = None
     \<and> (confirmation_file s = Some data \<and> map_of data t = Some c \<and> now_load < expiry c \<and> t \<noteq> []
          \<and> delete_path lower resolve A now_load now rb P r tok s = (res, s')
        \<longrightarrow> (\<exists>data'. confirmation_file s' = Some data' \<and>
               map_of data' t =
                 (if tok = Some t \<and> (\<exists>path. normalize_path lower resolve A P = Inr path) \<and>
                     (expiry c < now \<or> (stored_path c = P \<and> stored_recursive c = r))
                  then None
                  else if (tok = None \<or> tok = Some [])
                     \<and> (\<exists>path. normalize_path lower resolve A P = Inr path
                                 \<and> path_exists s path)
                     \<and> take 5 (token_hex rb) = t
                  then Some \<lparr>stored_path = P, stored_recursive = r,
                              expiry = now + timedelta_seconds CONFIRMATION_TTL_SECONDS\<rparr>
                  else Some c)))"
  by (rule conjI, rule startup_clears [OF assms],
      rule impI, elim conjE, rule token_fate [OF assms]; assumption)

text \<open>
  An instance: a request with the token and another path keeps the stored confirmation; a
  request with the token and the stored parameters deletes it.
\<close>

theorem token_deleted_exactly_when_witness:
  "confirmation_file (startup pending_disk) = None
   \<and> (\<exists>data'. confirmation_file (snd (delete_path ascii_lower id [''/data''] 1000000 1000000 []
           ''/data/a.txt'' False (Some ''abcde'') pending_disk)) = Some data'
         \<and> map_of data' ''abcde''
             = Some \<lparr>stored_path = ''/data/dir'', stored_recursive = False, expiry = 60000000\<rparr>)
   \<and> (\<exists>data'. confirmation_file (snd (delete_path ascii_lower id [''/data''] 1000000 1000000 []
           ''/data/dir'' False (Some ''abcde'') pending_disk)) = Some data'
         \<and> map_of data' ''abcde'' = None)"
proof -
  let ?c = "\<lparr>stored_path = ''/data/dir'', stored_recursive = False, expiry = 60000000\<rparr>"
  let ?data = "[(''abcde'', ?c)]"
  have f: "confirmation_file pending_disk = Some ?data"
    by (simp add: pending_disk_def example_disk_def)
  have m: "map_of ?data ''abcde'' = Some ?c" by simp
  have g1: "normalize_path ascii_lower id [''/data''] ''/data/a.txt'' = Inr ''/data/a.txt''"
    by code_simp
  have g2: "normalize_path ascii_lower id [''/data''] ''/data/dir'' = Inr ''/data/dir''"
    by code_simp
  note T = token_deleted_exactly_when [OF pending_disk_ok, where lower = ascii_lower
      and resolve = id and A = "[''/data'']" and data = ?data and t = "''abcde''" and c = ?c
      and now_load = 1000000 and now = 1000000 and rb = "[]" and r = False
      and tok = "Some ''abcde''"]
  from T [where P = "''/data/a.txt''"
      and res = "fst (delete_path ascii_lower id [''/data''] 1000000 1000000 [] ''/data/a.txt''
                        False (Some ''abcde'') pending_disk)"
      and s' = "snd (delete_path ascii_lower id [''/data''] 1000000 1000000 [] ''/data/a.txt''
                        False (Some ''abcde'') pending_disk)"] f m g1
  have a: "\<exists>data'. confirmation_file (snd (delete_path ascii_lower id [''/data''] 1000000
           1000000 [] ''/data/a.txt'' False (Some ''abcde'') pending_disk)) = Some data'
         \<and> map_of data' ''abcde'' = Some ?c"
    by simp
  from T [where P = "''/data/dir''"
      and res = "fst (delete_path ascii_lower id [''/data''] 1000000 1000000 [] ''/data/dir''
                        False (Some ''abcde'') pending_disk)"
      and s' = "snd (delete_path ascii_lower id [''/data''] 1000000 1000000 [] ''/data/dir''
                        False (Some ''abcde'') pending_disk)"] f m g2
  have b: "\<exists>data'. confirmation_file (snd (delete_path ascii_lower id [''/data''] 1000000
           1000000 [] ''/data/dir'' False (Some ''abcde'') pending_disk)) = Some data'
         \<and> map_of data' ''abcde'' = None"
    by simp
  from T f a b show ?thesis by blast
qed

text \<open>
  The confirmed deletion of a directory that is not empty fails, the directory stays, and the
  token, which was live, is gone from the store.
\<close>

theorem token_deleted_counterexample:
  "delete_path ascii_lower id [''/data''] 1000000 1000000 [] ''/data/dir'' False (Some ''abcde'') pending_disk =
     (Inl (HTTPException 500 (IOFailure ''Failed to delete /data/dir''
        (HTTPException 400 (DirectoryNotEmpty (OSError ''Directory not empty''))))),
      pending_disk\<lparr>confirmation_file := Some []\<rparr>)
   \<and> map_of (load_confirmations 1000000 pending_disk) ''abcde''
       = Some \<lparr>stored_path = ''/data/dir'', stored_recursive = False, expiry = 60000000\<rparr>
   \<and> is_dir (pending_disk\<lparr>confirmation_file := Some []\<rparr>) ''/data/dir''"
  by code_simp

text \<open>
  C4, as the code has it. When the path passes the Path Guard and the request presents a token
  of the store: if the expiry of the token is not later than the clock reading of
  \<^verbatim>\<open>load_confirmations\<close>, the entry is dropped on loading and the request fails with
  \<open>InvalidToken\<close> (\<^verbatim>\<open>"Invalid or expired confirmation token."\<close>), whatever its parameters; if the
  expiry lies after that reading and before the clock reading of the handler, the request
  fails with \<open>TokenExpired\<close> and the entry is deleted; and the request fails with
  \<open>TokenExpired\<close> in that window only.
\<close>

theorem expired_token_outcome:
  assumes ok: "confirmation_file_ok s"
    and guard: "normalize_path lower resolve A data_path = Inr path"
    and store: "confirmation_file s = Some data" "map_of data token = Some c" "token \<noteq> []"
  shows "(expiry c \<le> now_load \<longrightarrow>
            delete_path lower resolve A now_load now rb data_path data_recursive (Some token) s
              = (Inl (HTTPException 400 InvalidToken), s))
       \<and> (now_load < expiry c \<and> expiry c < now \<longrightarrow>
            delete_path lower resolve A now_load now rb data_path data_recursive (Some token) s
              = (Inl (HTTPException 400 TokenExpired),
                 s\<lparr>confirmation_file :=
                      Some (AList.delete token (load_confirmations now_load s))\<rparr>))
       \<and> (fst (delete_path lower resolve A now_load now rb data_path data_recursive
                   (Some token) s) = Inl (HTTPException 400 TokenExpired)
            \<longleftrightarrow> now_load < expiry c \<and> expiry c < now)"
proof -
  have a: "expiry c \<le> now_load \<Longrightarrow>
            delete_path lower resolve A now_load now rb data_path data_recursive (Some token) s
              = (Inl (HTTPException 400 InvalidToken), s)"
    using assms
    by (simp add: delete_path_def delete_confirm_def map_of_load save_confirmations_def
        confirmation_file_ok_def)
  have b: "now_load < expiry c \<Longrightarrow> expiry c < now \<Longrightarrow>
            delete_path lower resolve A now_load now rb data_path data_recursive (Some token) s
              = (Inl (HTTPException 400 TokenExpired),
                 s\<lparr>confirmation_file :=
                      Some (AList.delete token (load_confirmations now_load s))\<rparr>)"
    using assms
    by (simp add: delete_path_def delete_confirm_def map_of_load save_confirmations_def
        confirmation_file_ok_def)
  have c: "now_load < expiry c \<Longrightarrow> now \<le> expiry c \<Longrightarrow>
            fst (delete_path lower resolve A now_load now rb data_path data_recursive
                   (Some token) s) \<noteq> Inl (HTTPException 400 TokenExpired)"
    using assms
    by (auto simp: delete_path_def delete_confirm_def map_of_load confirmation_file_ok_def
        delete_path_except_not_expired split: prod.splits sum.splits)
  show ?thesis
  proof (intro conjI impI)
    show "fst (delete_path lower resolve A now_load now rb data_path data_recursive
                   (Some token) s) = Inl (HTTPException 400 TokenExpired)
            \<longleftrightarrow> now_load < expiry c \<and> expiry c < now"
    proof
      assume e: "fst (delete_path lower resolve A now_load now rb data_path data_recursive
                   (Some token) s) = Inl (HTTPException 400 TokenExpired)"
      show "now_load < expiry c \<and> expiry c < now"
      proof (rule ccontr)
        assume "\<not> (now_load < expiry c \<and> expiry c < now)"
        then consider "expiry c \<le> now_load" | "now_load < expiry c" "now \<le> expiry c"
          by linarith
        then show False
        proof cases
          case 1
          from a [OF 1] e show False by simp
        next
          case 2
          from c [OF 2] e show False by simp
        qed
      qed
    next
      assume "now_load < expiry c \<and> expiry c < now"
      with b show "fst (delete_path lower resolve A now_load now rb data_path data_recursive
                   (Some token) s) = Inl (HTTPException 400 TokenExpired)"
        by simp
    qed
  qed (use a b in simp_all)
qed

text \<open>
  An instance: a token that expired a second ago, and one that expires between the two
  clock readings.
\<close>

theorem expired_token_outcome_witness:
  "delete_path ascii_lower id [''/data''] 61000000 61000000 [] ''/data/dir'' False (Some ''abcde'')
     pending_disk = (Inl (HTTPException 400 InvalidToken), pending_disk)
   \<and> delete_path ascii_lower id [''/data''] 59999999 60000001 [] ''/data/dir'' False (Some ''abcde'')
        pending_disk = (Inl (HTTPException 400 TokenExpired),
                        pending_disk\<lparr>confirmation_file := Some []\<rparr>)"
proof -
  let ?c = "\<lparr>stored_path = ''/data/dir'', stored_recursive = False, expiry = 60000000\<rparr>"
  have g: "normalize_path ascii_lower id [''/data''] ''/data/dir'' = Inr ''/data/dir''" by code_simp
  have f: "confirmation_file pending_disk = Some [(''abcde'', ?c)]"
    by (simp add: pending_disk_def example_disk_def)
  have m: "map_of [(''abcde'', ?c)] ''abcde'' = Some ?c" "''abcde'' \<noteq> []" by simp_all
  have l: "AList.delete ''abcde'' (load_confirmations 59999999 pending_disk) = []"
    by code_simp
  note T = expired_token_outcome [OF pending_disk_ok g f m, where rb = "[]"
      and data_recursive = False]
  from T [where now_load = 61000000 and now = 61000000]
    T [where now_load = 59999999 and now = 60000001] l
  show ?thesis by simp
qed

text \<open>
  The token expired a second before the request and path and flag match: the request fails
  with \<open>InvalidToken\<close>, not with \<open>TokenExpired\<close>.
\<close>

theorem expired_token_counterexample:
  "map_of (the (confirmation_file pending_disk)) ''abcde''
     = Some \<lparr>stored_path = ''/data/dir'', stored_recursive = False, expiry = 60000000\<rparr>
   \<and> delete_path ascii_lower id [''/data''] 61000000 61000000 [] ''/data/dir'' False (Some ''abcde'')
        pending_disk = (Inl (HTTPException 400 InvalidToken), pending_disk)"
  by code_simp

text \<open>
  C5, as the code has it. A request without a token on an existing target is answered with
  the first five hexadecimal digits of the three random bytes as its token, whatever the
  store holds. The new confirmation is recorded under that token, and the confirmation of
  every other token is as it was loaded; a pending confirmation under the same token is
  overwritten.
\<close>

theorem generated_token_recorded:
  assumes ok: "confirmation_file_ok s"
    and guard: "normalize_path lower resolve A data_path = Inr path"
    and target: "path_exists s path"
    and no_token: "tok = None \<or> tok = Some []"
  shows "\<exists>msg data'.
       delete_path lower resolve A l n rb data_path data_recursive tok s =
         (Inr (ConfirmationRequiredResponse msg (take 5 (token_hex rb))
                 (n + timedelta_seconds CONFIRMATION_TTL_SECONDS)),
          s\<lparr>confirmation_file := Some data'\<rparr>)
     \<and> map_of data' (take 5 (token_hex rb)) =
         Some \<lparr>stored_path = data_path, stored_recursive = data_recursive,
               expiry = n + timedelta_seconds CONFIRMATION_TTL_SECONDS\<rparr>
     \<and> (\<forall>t. t \<noteq> take 5 (token_hex rb) \<longrightarrow>
            map_of data' t = map_of (load_confirmations l s) t)"
  using delete_request_issues [OF ok guard target no_token, of l n rb data_recursive]
  by (auto simp: map_of_AList_update)

text \<open>
  An instance: the bytes \<^verbatim>\<open>01 23 45\<close> give a token beside the pending one.
\<close>

theorem generated_token_recorded_witness:
  "\<exists>msg data'.
     delete_path ascii_lower id [''/data''] 1000000 1000000 [0x01, 0x23, 0x45] ''/data/a.txt'' False None
       pending_disk =
       (Inr (ConfirmationRequiredResponse msg ''01234'' 61000000),
        pending_disk\<lparr>confirmation_file := Some data'\<rparr>)
     \<and> map_of data' ''01234''
         = Some \<lparr>stored_path = ''/data/a.txt'', stored_recursive = False, expiry = 61000000\<rparr>
     \<and> map_of data' ''abcde''
         = Some \<lparr>stored_path = ''/data/dir'', stored_recursive = False, expiry = 60000000\<rparr>"
proof -
  have g: "normalize_path ascii_lower id [''/data''] ''/data/a.txt'' = Inr ''/data/a.txt''" by code_simp
  have e: "path_exists pending_disk ''/data/a.txt''" by code_simp
  have tok: "take 5 (token_hex [0x01, 0x23, 0x45]) = ''01234''" by code_simp
  have ttl: "1000000 + timedelta_seconds CONFIRMATION_TTL_SECONDS = 61000000" by code_simp
  have old: "map_of (load_confirmations 1000000 pending_disk) ''abcde''
     = Some \<lparr>stored_path = ''/data/dir'', stored_recursive = False, expiry = 60000000\<rparr>"
    by code_simp
  have ne: "''abcde'' \<noteq> ''01234''" by simp
  from generated_token_recorded [OF pending_disk_ok g e, where tok = None and l = 1000000
      and n = 1000000 and rb = "[0x01, 0x23, 0x45]" and data_recursive = False]
  obtain msg data' where
    "delete_path ascii_lower id [''/data''] 1000000 1000000 [0x01, 0x23, 0x45] ''/data/a.txt'' False None
       pending_disk =
       (Inr (ConfirmationRequiredResponse msg (take 5 (token_hex [0x01, 0x23, 0x45]))
               (1000000 + timedelta_seconds CONFIRMATION_TTL_SECONDS)),
        pending_disk\<lparr>confirmation_file := Some data'\<rparr>)"
    and "map_of data' (take 5 (token_hex [0x01, 0x23, 0x45])) =
         Some \<lparr>stored_path = ''/data/a.txt'', stored_recursive = False,
               expiry = 1000000 + timedelta_seconds CONFIRMATION_TTL_SECONDS\<rparr>"
    and "\<forall>t. t \<noteq> take 5 (token_hex [0x01, 0x23, 0x45]) \<longrightarrow>
            map_of data' t = map_of (load_confirmations 1000000 pending_disk) t"
    by blast
  with tok ttl old ne show ?thesis by (intro exI [of _ msg] exI [of _ data']) simp
qed

text \<open>
  The bytes \<^verbatim>\<open>ab cd ef\<close> give the token \<^verbatim>\<open>abcde\<close>, which is live in the store: the pending
  confirmation for \<^verbatim>\<open>/data/dir\<close> is replaced by the one for \<^verbatim>\<open>/data/a.txt\<close>.
\<close>

theorem generated_token_counterexample:
  "map_of (load_confirmations 1000000 pending_disk) ''abcde''
     = Some \<lparr>stored_path = ''/data/dir'', stored_recursive = False, expiry = 60000000\<rparr>
   \<and> delete_path ascii_lower id [''/data''] 1000000 1000000 [0xab, 0xcd, 0xef] ''/data/a.txt'' False None
        pending_disk =
      (Inr (ConfirmationRequiredResponse
         ''`Confirm deletion of file: /data/a.txt with token abcde`'' ''abcde'' 61000000),
       pending_disk\<lparr>confirmation_file :=
         Some [(''abcde'', \<lparr>stored_path = ''/data/a.txt'', stored_recursive = False,
                            expiry = 61000000\<rparr>)]\<rparr>)"
  by code_simp

text \<open>
  C10, as the code has it. When the path of the request passes the Path Guard and the token
  is live and unexpired, but the path or the recursive flag differs from the stored
  confirmation, the request fails with \<open>ParameterMismatch\<close> and the disk, the store with it,
  is as it was. A later request with the same token and the stored parameters, loaded and
  handled before the expiry, answers with success and removes the target, provided the
  operating system permits it and the target is a file, an empty directory, or a directory
  with the recursive flag stored.
\<close>

theorem parameter_mismatch_keeps_token:
  assumes ok: "confirmation_file_ok s"
    and guard: "normalize_path lower resolve A data_path = Inr path"
    and store: "confirmation_file s = Some data" "map_of data token = Some c" "token \<noteq> []"
    and live: "now_load < expiry c" "now \<le> expiry c"
    and mismatch: "stored_path c \<noteq> data_path \<or> stored_recursive c \<noteq> data_recursive"
  shows "delete_path lower resolve A now_load now rb data_path data_recursive (Some token) s
           = (Inl (HTTPException 400 ParameterMismatch), s)
     \<and> (\<forall>l2 n2 rb2 target.
           normalize_path lower resolve A (stored_path c) = Inr target
           \<and> l2 < expiry c \<and> n2 \<le> expiry c
           \<and> target \<notin> set (denied s) \<and> path_parts target \<noteq> []
           \<and> (is_file s target \<or> (is_dir s target \<and> stored_recursive c)
                \<or> os_lookup s target = Some (Dir []))
         \<longrightarrow> (\<exists>msg s2.
                delete_path lower resolve A l2 n2 rb2 (stored_path c) (stored_recursive c) (Some token)
                  (snd (delete_path lower resolve A now_load now rb data_path data_recursive
                          (Some token) s))
                  = (Inr (SuccessResponse msg), s2)
                \<and> \<not> path_exists s2 target))"
proof (intro conjI allI impI)
  show first: "delete_path lower resolve A now_load now rb data_path data_recursive (Some token) s
           = (Inl (HTTPException 400 ParameterMismatch), s)"
    using assms
    by (auto simp: delete_path_def delete_confirm_def map_of_load confirmation_file_ok_def)
  fix l2 n2 rb2 target
  assume a: "normalize_path lower resolve A (stored_path c) = Inr target
           \<and> l2 < expiry c \<and> n2 \<le> expiry c
           \<and> target \<notin> set (denied s) \<and> path_parts target \<noteq> []
           \<and> (is_file s target \<or> (is_dir s target \<and> stored_recursive c)
                \<or> os_lookup s target = Some (Dir []))"
  from a have g: "normalize_path lower resolve A (stored_path c) = Inr target"
    and l: "l2 < expiry c" "n2 \<le> expiry c"
    and t: "target \<notin> set (denied s)" "path_parts target \<noteq> []"
      "is_file s target \<or> (is_dir s target \<and> stored_recursive c)
         \<or> os_lookup s target = Some (Dir [])"
    by simp_all
  from confirmed_delete_succeeds [OF ok g store l refl refl t, of rb2] obtain msg where
    "delete_path lower resolve A l2 n2 rb2 (stored_path c) (stored_recursive c) (Some token) s =
       (Inr (SuccessResponse msg),
        s\<lparr>confirmation_file := Some (AList.delete token (load_confirmations l2 s)),
          root := remove (path_parts target) (root s)\<rparr>)"
    by blast
  moreover have "\<not> path_exists
       (s\<lparr>confirmation_file := Some (AList.delete token (load_confirmations l2 s)),
          root := remove (path_parts target) (root s)\<rparr>) target"
    using t(2) by (simp add: path_exists_def os_lookup_def lookup_remove_same)
  ultimately show "\<exists>msg s2.
                delete_path lower resolve A l2 n2 rb2 (stored_path c) (stored_recursive c) (Some token)
                  (snd (delete_path lower resolve A now_load now rb data_path data_recursive
                          (Some token) s))
                  = (Inr (SuccessResponse msg), s2)
                \<and> \<not> path_exists s2 target"
    using first by auto
qed

text \<open>
  An instance: the token for the file \<^verbatim>\<open>/data/a.txt\<close>, first with the recursive flag set, then
  as stored.
\<close>

theorem parameter_mismatch_keeps_token_witness:
  "delete_path ascii_lower id [''/data''] 1000000 1000000 [] ''/data/a.txt'' True (Some ''abcde'')
     pending_file_disk = (Inl (HTTPException 400 ParameterMismatch), pending_file_disk)
   \<and> (\<exists>msg s2.
         delete_path ascii_lower id [''/data''] 2000000 2000000 [] ''/data/a.txt'' False (Some ''abcde'')
           (snd (delete_path ascii_lower id [''/data''] 1000000 1000000 [] ''/data/a.txt'' True
                   (Some ''abcde'') pending_file_disk))
           = (Inr (SuccessResponse msg), s2)
         \<and> \<not> path_exists s2 ''/data/a.txt'')"
proof -
  let ?c = "\<lparr>stored_path = ''/data/a.txt'', stored_recursive = False, expiry = 60000000\<rparr>"
  have ok: "confirmation_file_ok pending_file_disk"
    by (simp add: confirmation_file_ok_def pending_file_disk_def example_disk_def)
  have g: "normalize_path ascii_lower id [''/data''] ''/data/a.txt'' = Inr ''/data/a.txt''" by code_simp
  have f: "confirmation_file pending_file_disk = Some [(''abcde'', ?c)]"
    by (simp add: pending_file_disk_def example_disk_def)
  have m: "map_of [(''abcde'', ?c)] ''abcde'' = Some ?c" "''abcde'' \<noteq> []" by simp_all
  have live: "1000000 < expiry ?c" "1000000 \<le> expiry ?c" by simp_all
  have mis: "stored_path ?c \<noteq> ''/data/a.txt'' \<or> stored_recursive ?c \<noteq> True" by simp
  have later: "normalize_path ascii_lower id [''/data''] (stored_path ?c) = Inr ''/data/a.txt''
           \<and> 2000000 < expiry ?c \<and> 2000000 \<le> expiry ?c
           \<and> ''/data/a.txt'' \<notin> set (denied pending_file_disk) \<and> path_parts ''/data/a.txt'' \<noteq> []
           \<and> (is_file pending_file_disk ''/data/a.txt''
                \<or> (is_dir pending_file_disk ''/data/a.txt'' \<and> stored_recursive ?c)
                \<or> os_lookup pending_file_disk ''/data/a.txt'' = Some (Dir []))"
    by code_simp
  note T = parameter_mismatch_keeps_token [OF ok g f m live mis, where rb = "[]"]
  from T [THEN conjunct2, rule_format, OF later, of "[]"]
  have "\<exists>msg s2.
         delete_path ascii_lower id [''/data''] 2000000 2000000 [] ''/data/a.txt'' False (Some ''abcde'')
           (snd (delete_path ascii_lower id [''/data''] 1000000 1000000 [] ''/data/a.txt'' True
                   (Some ''abcde'') pending_file_disk))
           = (Inr (SuccessResponse msg), s2)
         \<and> \<not> path_exists s2 ''/data/a.txt''"
    by simp
  with T [THEN conjunct1] show ?thesis by (intro conjI)
qed

text \<open>
  With a live token and a path outside the allowed roots the request fails with
  \<open>AccessDenied\<close>, not with \<open>ParameterMismatch\<close>; and after a mismatch, the request with the
  stored parameters for a directory that is not empty fails.
\<close>

theorem parameter_mismatch_counterexample:
  "map_of (load_confirmations 1000000 pending_disk) ''abcde''
     = Some \<lparr>stored_path = ''/data/dir'', stored_recursive = False, expiry = 60000000\<rparr>
   \<and> delete_path ascii_lower id [''/data''] 1000000 1000000 [] ''/etc/passwd'' False (Some ''abcde'')
        pending_disk =
      (Inl (HTTPException 403 (AccessDenied ''/etc/passwd'' [''/data''])), pending_disk)
   \<and> delete_path ascii_lower id [''/data''] 1000000 1000000 [] ''/data/dir'' True (Some ''abcde'')
        pending_disk = (Inl (HTTPException 400 ParameterMismatch), pending_disk)
   \<and> fst (delete_path ascii_lower id [''/data''] 2000000 2000000 [] ''/data/dir'' False (Some ''abcde'')
        pending_disk) =
      Inl (HTTPException 500 (IOFailure ''Failed to delete /data/dir''
        (HTTPException 400 (DirectoryNotEmpty (OSError ''Directory not empty'')))))"
  by code_simp

subsection \<open>Text Editor: the handler\<close>

lemma concat_splitlines_from: "concat (splitlines_from cur s) = cur @ s"
  by (induction cur s rule: splitlines_from.induct) auto

lemma concat_splitlines: "concat (splitlines s) = s"
  by (simp add: splitlines_def concat_splitlines_from)

lemma apply_edits_append:
  "apply_edits (before @ after) cur =
     (case apply_edits before cur of Inl e \<Rightarrow> Inl e | Inr cur' \<Rightarrow> apply_edits after cur')"
  by (induction before arbitrary: cur) simp_all

text \<open>
  C6, on the code. When the path passes the Path Guard, the file is read, the edits before
  some edit apply, and the \<open>oldText\<close> of that edit is not a substring of the text as modified
  so far, the \<open>HTTPException\<close> with status 400 and the \<open>EditNotFound\<close> detail (with the first
  50 characters of \<open>oldText\<close>) is raised inside the \<^verbatim>\<open>try\<close> block and caught by its
  \<^verbatim>\<open>except Exception\<close> clause: the request fails with status 500 and the message
  \<^verbatim>\<open>"Failed to write edited file ..."\<close>, and the disk is as it was.
\<close>

theorem edit_not_found_reported_as_failure:
  assumes "normalize_path lower resolve A P = Inr path"
    and "read_text s path = Inr original"
    and "apply_edits before original = Inr cur"
    and "\<not> sublist (oldText edit) cur"
  shows "edit_file lower resolve A unified_diff P (before @ edit # after) dry s =
     (Inl (HTTPException 500 (IOFailure (''Failed to write edited file '' @ P)
             (HTTPException 400 (EditNotFound (take 50 (oldText edit)))))), s)"
  using assms by (simp add: edit_file_def apply_edits_append)

text \<open>
  An instance: the second edit looks for a text that the first edit replaced.
\<close>

theorem edit_not_found_reported_as_failure_witness:
  "edit_file ascii_lower id [''/data''] (\<lambda>a b fromfile tofile. []) ''/data/a.txt''
     [\<lparr>oldText = ''hello'', newText = ''world''\<rparr>, \<lparr>oldText = ''hello'', newText = ''again''\<rparr>]
     False example_disk =
     (Inl (HTTPException 500 (IOFailure ''Failed to write edited file /data/a.txt''
             (HTTPException 400 (EditNotFound ''hello'')))), example_disk)"
proof -
  have 1: "normalize_path ascii_lower id [''/data''] ''/data/a.txt'' = Inr ''/data/a.txt''" by code_simp
  have 2: "read_text example_disk ''/data/a.txt'' = Inr ''hello''" by code_simp
  have 3: "apply_edits [\<lparr>oldText = ''hello'', newText = ''world''\<rparr>] ''hello'' = Inr ''world''"
    by code_simp
  have 4: "\<not> sublist (oldText \<lparr>oldText = ''hello'', newText = ''again''\<rparr>) ''world''"
    by code_simp
  from edit_not_found_reported_as_failure [where after = "[]", OF 1 2 3 4] show ?thesis
    by simp
qed

text \<open>
  C8. A dry run leaves the disk as it was, whatever the request. When the path passes the
  Path Guard, the file is read (\<open>original\<close> is the text as \<^verbatim>\<open>Path.read_text\<close> returns it) and the
  edits apply, the dry run returns the joined output of \<^verbatim>\<open>unified_diff\<close> on the lines of the
  original and of the fully edited text, labelled with the request path after \<^verbatim>\<open>a/\<close> and
  \<^verbatim>\<open>b/\<close>; and the same request without dry run, when the write succeeds, leaves the file
  holding exactly that fully edited text (whose lines, joined, the dry run compared), which
  is read back with universal newlines.
\<close>

theorem dry_run_and_write_agree:
  "snd (edit_file lower resolve A unified_diff P edits True s) = s
   \<and> (normalize_path lower resolve A P = Inr path \<and> read_text s path = Inr original
        \<and> apply_edits edits original = Inr modified \<longrightarrow>
      edit_file lower resolve A unified_diff P edits True s =
        (Inr (DiffResponse (concat (unified_diff (splitlines original) (splitlines modified)
                (''a/'' @ P) (''b/'' @ P)))), s)
      \<and> (\<forall>s'. write_text s path modified = Inr s' \<longrightarrow>
            edit_file lower resolve A unified_diff P edits False s =
              (Inr (SuccessResponse (''Successfully edited file '' @ P)), s')
            \<and> os_lookup s' path = Some (File modified)
            \<and> read_text s' path = Inr (universal_newlines modified)))"
proof (intro conjI impI allI)
  show "snd (edit_file lower resolve A unified_diff P edits True s) = s"
    by (simp add: edit_file_def split: sum.splits)
next
  assume "normalize_path lower resolve A P = Inr path \<and> read_text s path = Inr original
        \<and> apply_edits edits original = Inr modified"
  then show "edit_file lower resolve A unified_diff P edits True s =
        (Inr (DiffResponse (concat (unified_diff (splitlines original) (splitlines modified)
                (''a/'' @ P) (''b/'' @ P)))), s)"
    by (simp add: edit_file_def)
next
  fix s'
  assume "normalize_path lower resolve A P = Inr path \<and> read_text s path = Inr original
        \<and> apply_edits edits original = Inr modified"
    and "write_text s path modified = Inr s'"
  then show "edit_file lower resolve A unified_diff P edits False s =
              (Inr (SuccessResponse (''Successfully edited file '' @ P)), s')"
    by (simp add: edit_file_def)
next
  fix s'
  assume "write_text s path modified = Inr s'"
  then show "os_lookup s' path = Some (File modified)"
    by (rule read_text_write_text [THEN conjunct1])
next
  fix s'
  assume "write_text s path modified = Inr s'"
  then show "read_text s' path = Inr (universal_newlines modified)"
    by (rule read_text_write_text [THEN conjunct2])
qed

text \<open>
  An instance: \<^verbatim>\<open>hello\<close> becomes \<^verbatim>\<open>world\<close> in \<^verbatim>\<open>/data/a.txt\<close>.
\<close>

theorem dry_run_and_write_agree_witness:
  "edit_file ascii_lower id [''/data''] example_diff ''/data/a.txt''
     [\<lparr>oldText = ''hello'', newText = ''world''\<rparr>] True example_disk =
     (Inr (DiffResponse ''--- a//data/a.txt+++ b//data/a.txt-hello+world''), example_disk)
   \<and> os_lookup (snd (edit_file ascii_lower id [''/data''] example_diff ''/data/a.txt''
        [\<lparr>oldText = ''hello'', newText = ''world''\<rparr>] False example_disk)) ''/data/a.txt''
      = Some (File ''world'')"
proof -
  have 1: "normalize_path ascii_lower id [''/data''] ''/data/a.txt'' = Inr ''/data/a.txt''" by code_simp
  have 2: "read_text example_disk ''/data/a.txt'' = Inr ''hello''" by code_simp
  have 3: "apply_edits [\<lparr>oldText = ''hello'', newText = ''world''\<rparr>] ''hello'' = Inr ''world''"
    by code_simp
  have 4: "\<exists>s'. write_text example_disk ''/data/a.txt'' ''world'' = Inr s'"
    by (simp add: write_text_def example_disk_def example_tree_def path_parts_def is_dir_def
        os_lookup_def)
  have 5: "concat (example_diff (splitlines ''hello'') (splitlines ''world'')
             (''a/'' @ ''/data/a.txt'') (''b/'' @ ''/data/a.txt''))
           = ''--- a//data/a.txt+++ b//data/a.txt-hello+world''"
    by code_simp
  from dry_run_and_write_agree [where lower = ascii_lower and resolve = id and A = "[''/data'']" and P = "''/data/a.txt''"
      and unified_diff = example_diff and s = example_disk and path = "''/data/a.txt''"
      and original = "''hello''" and modified = "''world''"
      and edits = "[\<lparr>oldText = ''hello'', newText = ''world''\<rparr>]"] 1 2 3 4 5
  show ?thesis by auto
qed

subsection \<open>Filename search\<close>

text \<open>
  At a level that is not excluded, a path is reported exactly when it is the level's path
  joined with a file or directory name that contains the pattern, both in lower case, and it
  starts with an allowed root.
\<close>

lemma level_matches_iff:
  "p \<in> set (level_matches lower ALLOWED_DIRECTORIES data_pattern root_dir dirs files) \<longleftrightarrow>
     (\<exists>item \<in> set (files @ dirs). p = path_join root_dir item
        \<and> sublist (lower data_pattern) (lower item)
        \<and> (\<exists>alt \<in> set ALLOWED_DIRECTORIES. startswith p alt))"
  by (auto simp: level_matches_def list_ex_iff)

text \<open>
  C9, on the code. The directory \<^verbatim>\<open>/data/node_modules\<close> matches the exclude pattern
  \<^verbatim>\<open>node_modules\<close>. Its own entries are skipped (\<^verbatim>\<open>/data/node_modules/report.txt\<close> is not
  reported), but the walk goes on into its subdirectory, and the file
  \<^verbatim>\<open>/data/node_modules/pkg/report.txt\<close> beneath the excluded directory is in the results.
\<close>

theorem search_descends_into_excluded:
  "path_match ''/data/node_modules'' ''node_modules'' = Inr True
   \<and> os_lookup example_disk ''/data/node_modules/pkg/report.txt'' = Some (File ''r'')
   \<and> search_files ascii_lower id [''/data''] ''/data'' ''report'' (Some [''node_modules'']) example_disk =
       (Inr (Matches [''/data/node_modules/pkg/report.txt'']), example_disk)"
  by code_simp

subsection \<open>Text Editor: first occurrence, one edit after the other\<close>

lemma first_occurrence_unique:
  assumes "first_occurrence old cur pre post" and "first_occurrence old cur pre' post'"
  shows "pre = pre' \<and> post = post'"
proof -
  from assms have len: "length pre = length pre'"
    by (auto simp: first_occurrence_def dest!: spec spec intro: le_antisym)
  from assms have "pre @ old @ post = pre' @ old @ post'"
    by (simp add: first_occurrence_def)
  with len show ?thesis by simp
qed

lemma replace_1_first_occurrence:
  "sublist old cur \<Longrightarrow>
     \<exists>pre post. first_occurrence old cur pre post \<and> replace_1 old new cur = pre @ new @ post"
proof (induction cur)
  case Nil
  then show ?case by (simp add: first_occurrence_def)
next
  case (Cons c cs)
  show ?case
  proof (cases "prefix old (c # cs)")
    case True
    then obtain post where eq: "c # cs = old @ post" by (auto simp: prefix_def)
    then have "drop (length old) (c # cs) = post" by simp
    with True have "replace_1 old new (c # cs) = [] @ new @ post" by simp
    moreover from eq have "first_occurrence old (c # cs) [] post"
      by (simp add: first_occurrence_def)
    ultimately show ?thesis by blast
  next
    case False
    with Cons.prems have "sublist old cs" by (simp add: sublist_Cons_right)
    then obtain pre post where fo: "first_occurrence old cs pre post"
      and r: "replace_1 old new cs = pre @ new @ post"
      using Cons.IH by blast
    have "first_occurrence old (c # cs) (c # pre) post"
      unfolding first_occurrence_def
    proof (intro conjI allI impI)
      show "c # cs = (c # pre) @ old @ post" using fo by (simp add: first_occurrence_def)
    next
      fix pre' post' assume eq: "c # cs = pre' @ old @ post'"
      show "length (c # pre) \<le> length pre'"
      proof (cases pre')
        case Nil
        with eq have "prefix old (c # cs)" by (simp add: prefix_def)
        with False show ?thesis by simp
      next
        case (Cons d ds)
        with eq have "cs = ds @ old @ post'" by simp
        with fo have "length pre \<le> length ds" unfolding first_occurrence_def by blast
        with Cons show ?thesis by simp
      qed
    qed
    moreover have "replace_1 old new (c # cs) = (c # pre) @ new @ post"
      using False r by simp
    ultimately show ?thesis by blast
  qed
qed

lemma first_occurrence_sublist: "first_occurrence old cur pre post \<Longrightarrow> sublist old cur"
  by (auto simp: first_occurrence_def sublist_def)

lemma apply_edits_edited: "apply_edits edits cur = Inr cur' \<Longrightarrow> edited edits cur cur'"
proof (induction edits arbitrary: cur)
  case Nil
  then show ?case by (simp add: edited_Nil)
next
  case (Cons edit edits)
  from Cons.prems have sub: "sublist (oldText edit) cur"
    and rest: "apply_edits edits (replace_1 (oldText edit) (newText edit) cur) = Inr cur'"
    by (auto split: if_splits)
  from replace_1_first_occurrence [OF sub] obtain pre post
    where fo: "first_occurrence (oldText edit) cur pre post"
      and r: "replace_1 (oldText edit) (newText edit) cur = pre @ newText edit @ post"
    by blast
  from rest r have "edited edits (pre @ newText edit @ post) cur'"
    using Cons.IH by simp
  with fo show ?case by (rule edited_Cons)
qed

lemma edited_apply_edits: "edited edits cur cur' \<Longrightarrow> apply_edits edits cur = Inr cur'"
proof (induction rule: edited.induct)
  case (edited_Nil cur)
  show ?case by simp
next
  case (edited_Cons edit cur pre post edits cur')
  from edited_Cons.hyps(1) have sub: "sublist (oldText edit) cur"
    by (rule first_occurrence_sublist)
  from replace_1_first_occurrence [OF sub] obtain pre2 post2
    where fo: "first_occurrence (oldText edit) cur pre2 post2"
      and r: "replace_1 (oldText edit) (newText edit) cur = pre2 @ newText edit @ post2"
    by blast
  from first_occurrence_unique [OF edited_Cons.hyps(1) fo] have "pre = pre2" "post = post2"
    by simp_all
  with r sub edited_Cons.IH show ?case by simp
qed

text \<open>
  C7. For every edit list and original text, the edit loop returns a text exactly when that
  text is reached by applying the edits in order, each to the text left by the edits before
  it, and each replacing the first occurrence of its \<open>oldText\<close> (counted from the start of the
  current text) and nothing else: the text before and after that occurrence is kept as it is,
  so neither a later occurrence nor all occurrences are replaced.
\<close>

theorem edits_sequential_first_occurrence:
  "apply_edits edits cur = Inr cur' \<longleftrightarrow> edited edits cur cur'"
  by (blast intro: apply_edits_edited edited_apply_edits)

theorem edits_sequential_first_occurrence_witness: "apply_edits [\<lparr>oldText = ''ab'', newText = ''X''\<rparr>, \<lparr>oldText = ''Xc'', newText = ''ab''\<rparr>] ''abcab'' = Inr ''abab''
  \<and> edited [\<lparr>oldText = ''ab'', newText = ''X''\<rparr>, \<lparr>oldText = ''Xc'', newText = ''ab''\<rparr>] ''abcab'' ''abab''"
  using edits_sequential_first_occurrence [of "[\<lparr>oldText = ''ab'', newText = ''X''\<rparr>, \<lparr>oldText = ''Xc'', newText = ''ab''\<rparr>]" "''abcab''" "''abab''"]
  by (simp add: sublist_Cons_right)

end
